theory Spec2Isabelle
  imports Complex_Main "HOL-Library.AList"
begin

section \<open>Python values, exceptions and outcomes\<close>

text \<open>
  The orchestration core of the repository is Python. Its dictionaries are keyed by
  strings throughout (\<^verbatim>\<open>Dict[str, Any]\<close>), so a dictionary is an association list in
  insertion order with distinct keys, and the values it carries are the dynamically typed
  values below. \<open>VObj\<close> is an opaque object of the surrounding application (a model
  instance, an uploaded file); such objects are always truthy. Floats are carried as
  reals: no claim depends on rounding.
\<close>

datatype val =
    VNone
  | VBool bool
  | VInt int
  | VFloat real
  | VStr string
  | VBytes string
  | VList "val list"
  | VDict "(string \<times> val) list"
  | VObj nat

type_synonym dict = "(string \<times> val) list"

text \<open>Python's truth test, as used by \<^verbatim>\<open>if not script:\<close> and \<^verbatim>\<open>metadata or {}\<close>.\<close>

fun truthy :: "val \<Rightarrow> bool" where
  "truthy VNone = False"
| "truthy (VBool b) = b"
| "truthy (VInt i) = (i \<noteq> 0)"
| "truthy (VFloat x) = (x \<noteq> 0)"
| "truthy (VStr s) = (s \<noteq> [])"
| "truthy (VBytes s) = (s \<noteq> [])"
| "truthy (VList xs) = (xs \<noteq> [])"
| "truthy (VDict d) = (d \<noteq> [])"
| "truthy (VObj _) = True"

text \<open>
  Exceptions carry the message that \<^verbatim>\<open>str(e)\<close> shows. \<open>CancelledError\<close> derives from
  \<^verbatim>\<open>BaseException\<close>, so \<^verbatim>\<open>except Exception\<close> does not catch it.
\<close>

datatype exn =
    TypeError string
  | KeyError string
  | ValueError string
  | IndexError string
  | AttributeError string
  | ValidationError string
  | TimeoutError string
  | Exception string
  | CancelledError

fun is_Exception :: "exn \<Rightarrow> bool" where
  "is_Exception CancelledError = False"
| "is_Exception _ = True"

fun exn_str :: "exn \<Rightarrow> string" where
  "exn_str (TypeError m) = m"
| "exn_str (KeyError k) = [CHR 0x27] @ k @ [CHR 0x27]"
| "exn_str (ValueError m) = m"
| "exn_str (IndexError m) = m"
| "exn_str (AttributeError m) = m"
| "exn_str (ValidationError m) = ''['' @ [CHR 0x27] @ m @ [CHR 0x27] @ '']''"
| "exn_str (TimeoutError m) = m"
| "exn_str (Exception m) = m"
| "exn_str CancelledError = []"

text \<open>
  A call either returns, raises, or never comes back. The last case arises in exactly one
  place: a task that waits for an admission slot which no other task will ever free.
\<close>

datatype 'a outcome = Returns 'a | Raises exn | Blocks

text \<open>Dictionary operations: \<^verbatim>\<open>d.get(k)\<close>, \<^verbatim>\<open>d[k]\<close>, \<^verbatim>\<open>k in d\<close>, \<^verbatim>\<open>d.update(e)\<close>.\<close>

definition dict_get :: "dict \<Rightarrow> string \<Rightarrow> val" where
  "dict_get d k = (case map_of d k of None \<Rightarrow> VNone | Some v \<Rightarrow> v)"

definition getitem :: "(string \<times> 'a) list \<Rightarrow> string \<Rightarrow> exn + 'a" where
  "getitem d k = (case map_of d k of None \<Rightarrow> Inl (KeyError k) | Some v \<Rightarrow> Inr v)"

definition has_key :: "(string \<times> 'a) list \<Rightarrow> string \<Rightarrow> bool" where
  "has_key d k = (map_of d k \<noteq> None)"


text \<open>
  \<^verbatim>\<open>d.update(e)\<close> walks \<open>e\<close> in order; a key already in \<open>d\<close> keeps its position and takes
  the new value, a new key is appended.
\<close>

definition dict_update :: "(string \<times> 'a) list \<Rightarrow> (string \<times> 'a) list \<Rightarrow> (string \<times> 'a) list" where
  "dict_update d e = fold (\<lambda>(k, v) acc. AList.update k v acc) e d"

subsection \<open>ServiceResult\<close>

text \<open>
  \<^verbatim>\<open>ServiceResult(success, data=None, error=None, error_details=None)\<close> of
  \<^verbatim>\<open>apps/core/services.py\<close>. The constructor stores \<^verbatim>\<open>error_details or {}\<close>; its
  \<^verbatim>\<open>timestamp\<close> is a clock reading that nothing in the orchestration core reads, and is
  left out.
\<close>

datatype 'a ServiceResult =
  ServiceResult (success: bool) (data: "'a option") (error: "string option")
    (error_details: dict)

definition failed :: "'a ServiceResult \<Rightarrow> bool" where
  "failed r = (\<not> success r)"

section \<open>MetricsCollector\<close>

text \<open>
  \<^verbatim>\<open>layers/middleware/monitoring.py\<close>, lines 13-38. The collector owns a
  \<^verbatim>\<open>defaultdict(list)\<close>; \<^verbatim>\<open>get_metrics\<close> hands out \<^verbatim>\<open>dict(...)\<close> of it. Whether a
  caller can reach the collector's state through what it is handed depends on which
  objects are shared, so dictionaries and lists live in an explicit store: an address is
  an index into the heap. A dictionary object maps a key either to the address of a list
  object or to an immediate value; a list object holds metric dictionaries. The lock is
  acquired and released around each method body and has no effect on a single caller.
\<close>

datatype hval = Ref nat | Imm val

datatype obj = is_DictObj: DictObj "(string \<times> hval) list" | is_ListObj: ListObj "dict list"

type_synonym heap = "obj list"

record MetricsCollector =
  metrics :: nat

definition dict_at :: "heap \<Rightarrow> nat \<Rightarrow> (string \<times> hval) list" where
  "dict_at h a = (if a < length h then (case h ! a of DictObj d \<Rightarrow> d | ListObj _ \<Rightarrow> []) else [])"

definition list_at :: "heap \<Rightarrow> nat \<Rightarrow> dict list" where
  "list_at h a = (if a < length h then (case h ! a of ListObj xs \<Rightarrow> xs | DictObj _ \<Rightarrow> []) else [])"

text \<open>\<^verbatim>\<open>__init__\<close>: \<^verbatim>\<open>self.metrics = defaultdict(list)\<close>.\<close>

definition MetricsCollector_init :: "heap \<Rightarrow> MetricsCollector \<times> heap" where
  "MetricsCollector_init h = (\<lparr>metrics = length h\<rparr>, h @ [DictObj []])"

text \<open>
  \<^verbatim>\<open>self.metrics[operation]\<close> on the \<^verbatim>\<open>defaultdict(list)\<close>: a missing key is bound to a
  new empty list first. The result is the address of the list.
\<close>

definition defaultdict_getitem :: "nat \<Rightarrow> string \<Rightarrow> heap \<Rightarrow> nat \<times> heap" where
  "defaultdict_getitem a k h =
     (case map_of (dict_at h a) k of
        Some (Ref l) \<Rightarrow> (l, h)
      | _ \<Rightarrow> (length h, (h @ [ListObj []])[a := DictObj (AList.update k (Ref (length h)) (dict_at h a))]))"

definition list_append :: "nat \<Rightarrow> dict \<Rightarrow> heap \<Rightarrow> heap" where
  "list_append l x h = h[l := ListObj (list_at h l @ [x])]"

text \<open>
  \<^verbatim>\<open>record_metric\<close>, lines 20-28. \<open>now\<close> is the reading of
  \<^verbatim>\<open>datetime.now().isoformat()\<close>; \<^verbatim>\<open>metadata or {}\<close> turns \<^verbatim>\<open>None\<close> into the empty
  dictionary.
\<close>

definition record_metric ::
  "MetricsCollector \<Rightarrow> string \<Rightarrow> real \<Rightarrow> bool \<Rightarrow> dict option \<Rightarrow> string \<Rightarrow> heap \<Rightarrow> heap" where
  "record_metric self operation duration succ metadata now h =
     (let (l, h1) = defaultdict_getitem (metrics self) operation h
      in list_append l
           [(''duration'', VFloat duration),
            (''timestamp'', VStr now),
            (''success'', VBool succ),
            (''metadata'', VDict (case metadata of None \<Rightarrow> [] | Some m \<Rightarrow> m))] h1)"

text \<open>
  \<^verbatim>\<open>dict(xs)\<close> for a list \<open>xs\<close> of dictionaries: every element is read as a key/value
  pair by iterating it, and iterating a dictionary yields its keys. An element with other
  than two keys raises \<^verbatim>\<open>ValueError\<close>; one with exactly two keys binds the first key to
  the second.
\<close>

fun dict_of_sequence :: "(string \<times> hval) list \<Rightarrow> dict list \<Rightarrow> exn + (string \<times> hval) list" where
  "dict_of_sequence acc [] = Inr acc"
| "dict_of_sequence acc (x # xs) =
     (case map fst x of
        [k, v] \<Rightarrow> dict_of_sequence (AList.update k (Imm (VStr v)) acc) xs
      | _ \<Rightarrow> Inl (ValueError ''dictionary update sequence element has wrong length; 2 is required''))"

text \<open>
  \<^verbatim>\<open>get_metrics\<close>, lines 30-34. \<^verbatim>\<open>if operation:\<close> is a truth test, so \<^verbatim>\<open>None\<close> and the
  empty string both take the second branch. Each branch allocates the dictionary it
  returns; the result is its address.
\<close>

definition get_metrics :: "MetricsCollector \<Rightarrow> string option \<Rightarrow> heap \<Rightarrow> nat outcome \<times> heap" where
  "get_metrics self operation h =
     (if operation \<noteq> None \<and> operation \<noteq> Some []
      then (let (l, h1) = defaultdict_getitem (metrics self) (the operation) h
            in case dict_of_sequence [] (list_at h1 l) of
                 Inl e \<Rightarrow> (Raises e, h1)
               | Inr d \<Rightarrow> (Returns (length h1), h1 @ [DictObj d]))
      else (Returns (length h), h @ [DictObj (dict_at h (metrics self))]))"

text \<open>\<^verbatim>\<open>clear_metrics\<close>, lines 36-38: \<^verbatim>\<open>self.metrics.clear()\<close>.\<close>

definition clear_metrics :: "MetricsCollector \<Rightarrow> heap \<Rightarrow> heap" where
  "clear_metrics self h = h[metrics self := DictObj []]"

text \<open>
  What a caller can observe of a collector: the operations it holds and, for each, the
  metrics recorded, that is the content of \<^verbatim>\<open>get_metrics()\<close> with every list read.
\<close>

definition deref :: "heap \<Rightarrow> hval \<Rightarrow> dict list" where
  "deref h v = (case v of Ref l \<Rightarrow> list_at h l | Imm _ \<Rightarrow> [])"

definition observe :: "MetricsCollector \<Rightarrow> heap \<Rightarrow> (string \<times> dict list) list" where
  "observe self h = map (\<lambda>(k, v). (k, deref h v)) (dict_at h (metrics self))"

text \<open>
  A collector is well formed in a heap when its dictionary is allocated and binds every
  operation to an allocated list object other than the dictionary itself.
\<close>

definition wf_collector :: "MetricsCollector \<Rightarrow> heap \<Rightarrow> bool" where
  "wf_collector self h =
     (metrics self < length h \<and> is_DictObj (h ! metrics self) \<and>
      list_all (\<lambda>(k, v). case v of Ref l \<Rightarrow> l < length h \<and> is_ListObj (h ! l) | Imm _ \<Rightarrow> False)
        (dict_at h (metrics self)))"

section \<open>ResourceMonitor\<close>

text \<open>
  \<^verbatim>\<open>layers/middleware/monitoring.py\<close>, lines 114-138. A monitor owns an
  \<^verbatim>\<open>asyncio.Semaphore(max_workers)\<close> and a collector of its own. The state one call runs
  in is the number of free admission slots, the heap that holds the collector, and the
  state \<open>ext\<close> of everything outside the monitor: the work functions, the services they
  call and the clock. A work function only sees and changes \<open>ext\<close>.
\<close>

record ResourceMonitor =
  metrics_collector :: MetricsCollector

record 'e world =
  permits :: nat
  heap :: heap
  ext :: 'e

text \<open>
  A callable has a \<^verbatim>\<open>__name__\<close> and is applied to positional and keyword arguments; the
  outcome is what awaiting the call yields.
\<close>

record ('r, 'e) pyfunc =
  func_name :: string
  func_call :: "val list \<Rightarrow> dict \<Rightarrow> 'e \<Rightarrow> 'r outcome \<times> 'e"

text \<open>
  The readings the monitor takes from its environment: \<^verbatim>\<open>time.time()\<close>,
  \<^verbatim>\<open>datetime.now().isoformat()\<close>, and \<^verbatim>\<open>str\<close> of the argument tuple and of the keyword
  dictionary.
\<close>

record 'e runtime =
  time_time :: "'e \<Rightarrow> real"
  isoformat_now :: "'e \<Rightarrow> string"
  str_args :: "val list \<Rightarrow> string"
  str_kwargs :: "dict \<Rightarrow> string"

text \<open>
  \<^verbatim>\<open>__init__(max_workers=4)\<close>: \<^verbatim>\<open>asyncio.Semaphore\<close> refuses a negative value with
  \<^verbatim>\<open>ValueError\<close>.
\<close>

definition ResourceMonitor_init :: "int \<Rightarrow> 'e \<Rightarrow> exn + ResourceMonitor \<times> 'e world" where
  "ResourceMonitor_init max_workers e =
     (if max_workers < 0 then Inl (ValueError ''Semaphore initial value must be >= 0'')
      else (let (c, h) = MetricsCollector_init []
            in Inr (\<lparr>metrics_collector = c\<rparr>, \<lparr>permits = nat max_workers, heap = h, ext = e\<rparr>)))"

definition acquire :: "'e world \<Rightarrow> 'e world" where
  "acquire w = w\<lparr>permits := permits w - 1\<rparr>"

definition release :: "'e world \<Rightarrow> 'e world" where
  "release w = w\<lparr>permits := permits w + 1\<rparr>"

text \<open>
  \<^verbatim>\<open>execute_with_monitoring(func, *args, **kwargs)\<close>, lines 121-138, as one task runs it
  with no other task to free a slot: with no slot free the task waits for ever. Otherwise
  it takes a slot, reads the clock, calls \<^verbatim>\<open>func(*args, **kwargs)\<close> once, with every
  keyword argument it was given, and awaits it. \<^verbatim>\<open>except Exception\<close> sets
  \<^verbatim>\<open>success = False\<close> and re-raises; \<^verbatim>\<open>finally\<close> records one metric under the name of
  the function; leaving the \<^verbatim>\<open>async with\<close> block gives the slot back. A work function
  that never comes back keeps its slot.
\<close>

definition execute_with_monitoring ::
  "'e runtime \<Rightarrow> ResourceMonitor \<Rightarrow> ('r, 'e) pyfunc \<Rightarrow> val list \<Rightarrow> dict \<Rightarrow> 'e world
     \<Rightarrow> 'r outcome \<times> 'e world" where
  "execute_with_monitoring rt self func args kwargs w =
     (if permits w = 0 then (Blocks, w)
      else
        (let w0 = acquire w;
             start_time = time_time rt (ext w0);
             (res, e1) = func_call func args kwargs (ext w0)
         in case res of
              Blocks \<Rightarrow> (Blocks, w0\<lparr>ext := e1\<rparr>)
            | _ \<Rightarrow>
              (let succ = (case res of Raises e \<Rightarrow> \<not> is_Exception e | _ \<Rightarrow> True);
                   duration = time_time rt e1 - start_time;
                   h1 = record_metric (metrics_collector self) (func_name func) duration succ
                          (Some [(''args'', VStr (str_args rt args)),
                                 (''kwargs'', VStr (str_kwargs rt kwargs))])
                          (isoformat_now rt e1) (heap w0)
               in (res, release (w0\<lparr>heap := h1, ext := e1\<rparr>)))))"




subsection \<open>Concurrent callers\<close>

text \<open>
  Several tasks call \<^verbatim>\<open>execute_with_monitoring\<close> on one monitor and share its world. The
  method suspends in two places: in \<^verbatim>\<open>async with self.semaphore\<close>, while no slot is free,
  and in \<^verbatim>\<open>await func(*args, **kwargs)\<close>, while the work is in flight. Up to the second of
  them a task runs the method as \<open>execute_with_monitoring\<close> has it; \<open>leave\<close> is the rest
  of the method, run when the awaited work comes back with \<open>res\<close> and the outside state
  \<open>e1\<close>: the handler, the \<^verbatim>\<open>finally\<close> block with its metric, and \<^verbatim>\<open>__aexit__\<close> of the
  semaphore.
\<close>

definition leave ::
  "'e runtime \<Rightarrow> ResourceMonitor \<Rightarrow> ('r, 'e) pyfunc \<Rightarrow> val list \<Rightarrow> dict \<Rightarrow> real \<Rightarrow> 'r outcome
     \<Rightarrow> 'e \<Rightarrow> 'e world \<Rightarrow> 'e world" where
  "leave rt self func args kwargs start_time res e1 w0 =
     (let succ = (case res of Raises e \<Rightarrow> \<not> is_Exception e | _ \<Rightarrow> True);
          duration = time_time rt e1 - start_time;
          h1 = record_metric (metrics_collector self) (func_name func) duration succ
                 (Some [(''args'', VStr (str_args rt args)),
                        (''kwargs'', VStr (str_kwargs rt kwargs))])
                 (isoformat_now rt e1) (heap w0)
      in release (w0\<lparr>heap := h1, ext := e1\<rparr>))"

text \<open>
  A call is \<^verbatim>\<open>execute_with_monitoring(func, *args, **kwargs)\<close> with its arguments. It has
  not been made yet, or waits for a slot, or is inside the block with its work in flight
  since the clock reading it took there, or is over; it is over by return, by an
  exception, or by cancellation, which reaches a waiting call as well as one inside the
  block.
\<close>

record ('r, 'e) call =
  call_func :: "('r, 'e) pyfunc"
  call_args :: "val list"
  call_kwargs :: dict

datatype exit_path = NormalReturn | ExceptionRaised | Cancelled

datatype phase = NotCalled | Waiting | is_Running: Running real | Exited exit_path

text \<open>
  The tasks share the world of the monitor; \<open>waiters\<close> is the queue of the semaphore, the
  calls that wait for a slot, first come first.
\<close>

record 'e conc =
  shared :: "'e world"
  phases :: "phase list"
  waiters :: "nat list"

definition conc_init :: "'e world \<Rightarrow> nat \<Rightarrow> 'e conc" where
  "conc_init w n = \<lparr>shared = w, phases = replicate n NotCalled, waiters = []\<rparr>"

definition phase_of :: "'e conc \<Rightarrow> nat \<Rightarrow> phase option" where
  "phase_of s t = (if t < length (phases s) then Some (phases s ! t) else None)"

definition call_of :: "('r, 'e) call list \<Rightarrow> nat \<Rightarrow> ('r, 'e) call option" where
  "call_of calls t = (if t < length calls then Some (calls ! t) else None)"

text \<open>How a call whose work has come back is over; work still in flight has no exit.\<close>

definition exited :: "'r outcome \<Rightarrow> exit_path option" where
  "exited res =
     (case res of
        Returns _ \<Rightarrow> Some NormalReturn
      | Raises x \<Rightarrow> Some (if is_Exception x then ExceptionRaised else Cancelled)
      | Blocks \<Rightarrow> None)"

text \<open>
  A task that finds a slot free runs \<open>execute_with_monitoring\<close> on the shared world, up
  to the end of the method or to the \<^verbatim>\<open>await\<close> of work that does not come back at once. In the second case the call stays inside the block, with the clock reading
  \<^verbatim>\<open>start_time\<close> it took on entry.
\<close>

definition begin_call :: "'e runtime \<Rightarrow> ResourceMonitor \<Rightarrow> ('r, 'e) call \<Rightarrow> nat \<Rightarrow> 'e conc \<Rightarrow> 'e conc" where
  "begin_call rt self c t s =
     (case execute_with_monitoring rt self (call_func c) (call_args c) (call_kwargs c) (shared s) of
        (res, w') \<Rightarrow>
          s\<lparr>shared := w',
            phases := (phases s)[t := (case exited res of
                                         None \<Rightarrow> Running (time_time rt (ext (shared s)))
                                       | Some p \<Rightarrow> Exited p)]\<rparr>)"

text \<open>
  The events of the event loop, each for the call \<open>t\<close>.
  \<^item> \<open>Call\<close>: the task starts the method. With no slot free, or with others waiting
    already, it joins the end of the queue; otherwise it runs on, as \<open>begin_call\<close> has it.
  \<^item> \<open>Wake\<close>: a slot is free and the call is first in the queue: it leaves the queue and
    runs on, as \<open>begin_call\<close> has it.
  \<^item> \<open>CancelWait\<close>: the call is cancelled while it waits; it took no slot and leaves
    the queue.
  \<^item> \<open>Finish\<close>: the work of a call inside the block comes back with the given outcome
    and outside state; the call runs \<open>leave\<close>.
  \<^item> \<open>Cancel\<close>: a call inside the block is cancelled: \<^verbatim>\<open>CancelledError\<close> is raised at its
    \<^verbatim>\<open>await\<close>, and the call runs \<open>leave\<close>.
  An event that is not enabled yields \<open>None\<close>.
\<close>

datatype ('r, 'e) event =
  Call nat | Wake nat | CancelWait nat | Finish nat "'r outcome" 'e | Cancel nat

definition finish ::
  "'e runtime \<Rightarrow> ResourceMonitor \<Rightarrow> ('r, 'e) call list \<Rightarrow> nat \<Rightarrow> 'r outcome \<Rightarrow> 'e \<Rightarrow> 'e conc
     \<Rightarrow> 'e conc option" where
  "finish rt self calls t res e1 s =
     (case phase_of s t of
        Some (Running start_time) \<Rightarrow>
          (case call_of calls t of
             None \<Rightarrow> None
           | Some c \<Rightarrow>
               (case exited res of
                  None \<Rightarrow> None
                | Some p \<Rightarrow>
                    Some (s\<lparr>shared := leave rt self (call_func c) (call_args c) (call_kwargs c)
                                       start_time res e1 (shared s),
                            phases := (phases s)[t := Exited p]\<rparr>)))
      | _ \<Rightarrow> None)"

fun fire ::
  "'e runtime \<Rightarrow> ResourceMonitor \<Rightarrow> ('r, 'e) call list \<Rightarrow> ('r, 'e) event \<Rightarrow> 'e conc
     \<Rightarrow> 'e conc option" where
  "fire rt self calls (Call t) s =
     (if phase_of s t = Some NotCalled
      then (case call_of calls t of
              None \<Rightarrow> None
            | Some c \<Rightarrow>
                if permits (shared s) = 0 \<or> waiters s \<noteq> []
                then Some (s\<lparr>phases := (phases s)[t := Waiting], waiters := waiters s @ [t]\<rparr>)
                else Some (begin_call rt self c t s))
      else None)"
| "fire rt self calls (Wake t) s =
     (if phase_of s t = Some Waiting \<and> 0 < permits (shared s) \<and> take 1 (waiters s) = [t]
      then (case call_of calls t of
              None \<Rightarrow> None
            | Some c \<Rightarrow> Some ((begin_call rt self c t s)\<lparr>waiters := drop 1 (waiters s)\<rparr>))
      else None)"
| "fire rt self calls (CancelWait t) s =
     (if phase_of s t = Some Waiting
      then Some (s\<lparr>phases := (phases s)[t := Exited Cancelled],
                  waiters := removeAll t (waiters s)\<rparr>)
      else None)"
| "fire rt self calls (Finish t res e1) s = finish rt self calls t res e1 s"
| "fire rt self calls (Cancel t) s = finish rt self calls t (Raises CancelledError) (ext (shared s)) s"

fun run ::
  "'e runtime \<Rightarrow> ResourceMonitor \<Rightarrow> ('r, 'e) call list \<Rightarrow> ('r, 'e) event list \<Rightarrow> 'e conc
     \<Rightarrow> 'e conc option" where
  "run rt self calls [] s = Some s"
| "run rt self calls (ev # evs) s =
     (case fire rt self calls ev s of None \<Rightarrow> None | Some s' \<Rightarrow> run rt self calls evs s')"

text \<open>The calls whose work is in flight: those inside the block.\<close>

definition in_flight :: "'e conc \<Rightarrow> nat" where
  "in_flight s = length (filter is_Running (phases s))"

text \<open>
  Four calls on a monitor with one slot. The work of the first three does not come back
  at once, the work of the last returns at once. The outside state counts the pieces of
  work started.
\<close>

definition pending_work :: "(val, nat) pyfunc" where
  "pending_work = \<lparr>func_name = ''pending_work'', func_call = (\<lambda>args kwargs n. (Blocks, Suc n))\<rparr>"

definition returning_work :: "(val, nat) pyfunc" where
  "returning_work =
     \<lparr>func_name = ''returning_work'',
      func_call = (\<lambda>args kwargs n. (Returns (VStr ''done''), Suc n))\<rparr>"

definition four_calls :: "(val, nat) call list" where
  "four_calls =
     [\<lparr>call_func = pending_work, call_args = [], call_kwargs = []\<rparr>,
      \<lparr>call_func = pending_work, call_args = [], call_kwargs = []\<rparr>,
      \<lparr>call_func = pending_work, call_args = [], call_kwargs = []\<rparr>,
      \<lparr>call_func = returning_work, call_args = [], call_kwargs = []\<rparr>]"

definition counter_runtime :: "nat runtime" where
  "counter_runtime =
     \<lparr>time_time = real, isoformat_now = (\<lambda>_. ''2024-01-01T00:00:00''),
      str_args = (\<lambda>_. ''()''), str_kwargs = (\<lambda>_. ''{}'')\<rparr>"

text \<open>
  A schedule of the four calls: the first enters, the others queue; the second is
  cancelled in the queue; the work of the first raises; the third is woken, enters and
  is cancelled inside the block; the fourth is woken and returns.
\<close>

definition four_schedule :: "(val, nat) event list" where
  "four_schedule =
     [Call 0, Call 1, Call 2, Call 3, CancelWait 1, Finish 0 (Raises (Exception ''boom'')) 1,
      Wake 2, Cancel 2, Wake 3]"

section \<open>Content creation pipeline\<close>

text \<open>
  \<^verbatim>\<open>apps/content/services.py\<close>, class \<^verbatim>\<open>ContentCreationService\<close> (lines 18-140), and
  \<^verbatim>\<open>apps/content/enhanced_services.py\<close>, class \<^verbatim>\<open>EnhancedContentCreationService\<close>
  (lines 31-128). The service is constructed with its collaborators: the settings, a
  script generator and a voiceover generator. A generator call is awaited and yields a
  \<^verbatim>\<open>ServiceResult\<close> or raises; what it does to the world outside is a change of the
  outside state. The per-asset steps of \<^verbatim>\<open>_process_assets\<close> read files and dispatch to
  \<^verbatim>\<open>_process_image\<close>, \<^verbatim>\<open>_process_video\<close> and \<^verbatim>\<open>_process_audio\<close>, which this class does
  not define; \<^verbatim>\<open>content.assets.all()\<close> is a database query. They are collaborators too.
\<close>

record 'e ContentCreationService =
  settings :: "(string \<times> dict) list"
  content_gen_generate_script :: "val \<Rightarrow> dict \<Rightarrow> 'e \<Rightarrow> dict ServiceResult outcome \<times> 'e"
  voiceover_gen_generate_voiceover :: "val \<Rightarrow> dict \<Rightarrow> 'e \<Rightarrow> dict ServiceResult outcome \<times> 'e"
  content_assets_all :: "val \<Rightarrow> 'e \<Rightarrow> val list outcome \<times> 'e"
  validate_asset :: "val \<Rightarrow> dict \<Rightarrow> 'e \<Rightarrow> bool \<times> 'e"
  process_single_asset :: "val \<Rightarrow> dict \<Rightarrow> 'e \<Rightarrow> val ServiceResult outcome \<times> 'e"

text \<open>\<^verbatim>\<open>SettingsManager.get_category\<close>: \<^verbatim>\<open>self._settings.get(category, {}).copy()\<close>.\<close>

definition get_category :: "(string \<times> dict) list \<Rightarrow> string \<Rightarrow> dict" where
  "get_category s category = (case map_of s category of None \<Rightarrow> [] | Some d \<Rightarrow> d)"

text \<open>A step that may raise, followed by the rest of the body.\<close>

definition raise_or :: "exn + 'a \<Rightarrow> 'e \<Rightarrow> ('a \<Rightarrow> 'b outcome \<times> 'e) \<Rightarrow> 'b outcome \<times> 'e" where
  "raise_or x e k = (case x of Inl err \<Rightarrow> (Raises err, e) | Inr v \<Rightarrow> k v)"

text \<open>\<^verbatim>\<open>result.data[k]\<close>: subscripting \<^verbatim>\<open>None\<close> is a \<^verbatim>\<open>TypeError\<close>.\<close>

definition subscript :: "dict option \<Rightarrow> string \<Rightarrow> exn + val" where
  "subscript d k =
     (case d of None \<Rightarrow> Inl (TypeError ''NoneType object is not subscriptable'')
      | Some m \<Rightarrow> getitem m k)"

text \<open>
  \<^verbatim>\<open>except Exception as e: return ServiceResult(False, error=str(e))\<close>, the handler that
  closes each stage method (the log line it writes is not modelled).
\<close>

definition except_Exception :: "'a ServiceResult outcome \<times> 'e \<Rightarrow> 'a ServiceResult outcome \<times> 'e" where
  "except_Exception r =
     (case r of
        (Raises x, e) \<Rightarrow>
          if is_Exception x then (Returns (ServiceResult False None (Some (exn_str x)) []), e)
          else (Raises x, e)
      | _ \<Rightarrow> r)"

text \<open>\<^verbatim>\<open>_generate_script(self, context)\<close>, lines 28-48.\<close>

definition generate_script ::
  "'e ContentCreationService \<Rightarrow> dict \<Rightarrow> 'e \<Rightarrow> dict ServiceResult outcome \<times> 'e" where
  "generate_script self context e =
     except_Exception
       (raise_or (getitem context ''request'') e (\<lambda>request.
          case request of
            VDict rq \<Rightarrow>
              (let content_type = dict_get rq ''content_type'';
                   ai_settings = get_category (settings self) ''ai''
               in raise_or (getitem ai_settings ''max_retries'') e (\<lambda>max_retries.
                  raise_or (getitem ai_settings ''timeout'') e (\<lambda>timeout.
                    case content_gen_generate_script self content_type
                           [(''max_retries'', max_retries), (''timeout'', timeout)] e of
                      (Returns script_result, e1) \<Rightarrow>
                        if failed script_result then (Returns script_result, e1)
                        else raise_or (subscript (data script_result) ''script'') e1 (\<lambda>script.
                             raise_or (subscript (data script_result) ''metrics'') e1 (\<lambda>m.
                               (Returns (ServiceResult True
                                  (Some [(''script'', script), (''script_metrics'', m)]) None []), e1)))
                    | (out, e1) \<Rightarrow> (out, e1))))
          | _ \<Rightarrow> (Raises (AttributeError ''object has no attribute get''), e)))"

text \<open>\<^verbatim>\<open>_generate_voiceover(self, context)\<close>, lines 50-73.\<close>

definition generate_voiceover ::
  "'e ContentCreationService \<Rightarrow> dict \<Rightarrow> 'e \<Rightarrow> dict ServiceResult outcome \<times> 'e" where
  "generate_voiceover self context e =
     except_Exception
       (let script = dict_get context ''script''
        in if \<not> truthy script
           then (Returns (ServiceResult False None (Some ''Script not found in context'') []), e)
           else
             (let ai_settings = get_category (settings self) ''ai''
              in raise_or (getitem ai_settings ''max_retries'') e (\<lambda>max_retries.
                 raise_or (getitem ai_settings ''timeout'') e (\<lambda>timeout.
                   case voiceover_gen_generate_voiceover self script
                          [(''max_retries'', max_retries), (''timeout'', timeout)] e of
                     (Returns voiceover_result, e1) \<Rightarrow>
                       if failed voiceover_result then (Returns voiceover_result, e1)
                       else raise_or (subscript (data voiceover_result) ''audio'') e1 (\<lambda>audio.
                            raise_or (subscript (data voiceover_result) ''metrics'') e1 (\<lambda>m.
                              (Returns (ServiceResult True
                                 (Some [(''voiceover'', audio), (''voiceover_metrics'', m)]) None []), e1)))
                   | (out, e1) \<Rightarrow> (out, e1)))))"

text \<open>
  \<^verbatim>\<open>_process_assets(self, context)\<close>, lines 75-97. The loop skips an asset that does not
  validate and keeps the data of each asset whose processing succeeds.
\<close>

fun process_assets_loop ::
  "'e ContentCreationService \<Rightarrow> dict \<Rightarrow> val list \<Rightarrow> val list \<Rightarrow> 'e \<Rightarrow> val list outcome \<times> 'e" where
  "process_assets_loop self asset_settings [] processed_assets e = (Returns processed_assets, e)"
| "process_assets_loop self asset_settings (asset # rest) processed_assets e =
     (case validate_asset self asset asset_settings e of
        (ok, e1) \<Rightarrow>
          if \<not> ok then process_assets_loop self asset_settings rest processed_assets e1
          else
            (case process_single_asset self asset asset_settings e1 of
               (Returns processed_result, e2) \<Rightarrow>
                 process_assets_loop self asset_settings rest
                   (if success processed_result
                    then processed_assets @ [case data processed_result of None \<Rightarrow> VNone | Some v \<Rightarrow> v]
                    else processed_assets) e2
             | (Raises x, e2) \<Rightarrow> (Raises x, e2)
             | (Blocks, e2) \<Rightarrow> (Blocks, e2)))"

definition process_assets ::
  "'e ContentCreationService \<Rightarrow> dict \<Rightarrow> 'e \<Rightarrow> dict ServiceResult outcome \<times> 'e" where
  "process_assets self context e =
     except_Exception
       (let asset_settings = get_category (settings self) ''asset'';
            content = dict_get context ''content''
        in if \<not> truthy content
           then (Returns (ServiceResult False None (Some ''Content not found in context'') []), e)
           else
             (case content_assets_all self content e of
                (Returns assets, e1) \<Rightarrow>
                  (case process_assets_loop self asset_settings assets [] e1 of
                     (Returns processed_assets, e2) \<Rightarrow>
                       (Returns (ServiceResult True
                          (Some [(''processed_assets'', VList processed_assets)]) None []), e2)
                   | (Raises x, e2) \<Rightarrow> (Raises x, e2)
                   | (Blocks, e2) \<Rightarrow> (Blocks, e2))
              | (Raises x, e1) \<Rightarrow> (Raises x, e1)
              | (Blocks, e1) \<Rightarrow> (Blocks, e1)))"

subsection \<open>The service object and its stage methods\<close>

text \<open>
  \<^verbatim>\<open>_execute_pipeline\<close> reaches its three stages as \<^verbatim>\<open>self._generate_script\<close>,
  \<^verbatim>\<open>self._generate_voiceover\<close> and \<^verbatim>\<open>self._process_assets\<close>, and its monitor as
  \<^verbatim>\<open>self.resource_monitor\<close>: attributes of the object it runs on. The object is a record
  of these attributes.
\<close>

record 'e EnhancedContentCreationService =
  resource_monitor :: ResourceMonitor
  attr_generate_script :: "(dict ServiceResult, 'e) pyfunc"
  attr_generate_voiceover :: "(dict ServiceResult, 'e) pyfunc"
  attr_process_assets :: "(dict ServiceResult, 'e) pyfunc"

text \<open>
  A method declared \<^verbatim>\<open>def name(self, context)\<close>, as the three stage methods are: bound to
  its object it takes the context, by position or by name, and nothing else. Any other
  argument is a \<^verbatim>\<open>TypeError\<close> raised by the call itself, before the body and outside its
  \<^verbatim>\<open>try\<close>. A context that is not a dictionary fails inside the body, where the handler
  turns the error into a failure result.
\<close>

definition method_body :: "(dict \<Rightarrow> 'e \<Rightarrow> 'r ServiceResult outcome \<times> 'e) \<Rightarrow> val \<Rightarrow> 'e \<Rightarrow> 'r ServiceResult outcome \<times> 'e" where
  "method_body body context e =
     (case context of
        VDict c \<Rightarrow> body c e
      | _ \<Rightarrow> (Returns (ServiceResult False None (Some ''object has no attribute get'') []), e))"

definition bound_method ::
  "string \<Rightarrow> (dict \<Rightarrow> 'e \<Rightarrow> 'r ServiceResult outcome \<times> 'e) \<Rightarrow> ('r ServiceResult, 'e) pyfunc" where
  "bound_method name body =
     \<lparr>func_name = name,
      func_call = (\<lambda>args kwargs e.
         case (args, kwargs) of
           ([context], []) \<Rightarrow> method_body body context e
         | ([], [(k, context)]) \<Rightarrow>
             if k = ''context'' then method_body body context e
             else (Raises (TypeError (name @ ''() got an unexpected keyword argument'')), e)
         | _ \<Rightarrow> (Raises (TypeError (name @ ''() got an unexpected keyword argument'')), e))\<rparr>"

text \<open>
  The object that \<^verbatim>\<open>EnhancedContentCreationService(...)\<close> constructs: the three stage
  methods are the ones it inherits from \<^verbatim>\<open>ContentCreationService\<close>.
\<close>

definition EnhancedContentCreationService_init ::
  "'e ContentCreationService \<Rightarrow> ResourceMonitor \<Rightarrow> 'e EnhancedContentCreationService" where
  "EnhancedContentCreationService_init base mon =
     \<lparr>resource_monitor = mon,
      attr_generate_script = bound_method ''_generate_script'' (generate_script base),
      attr_generate_voiceover = bound_method ''_generate_voiceover'' (generate_voiceover base),
      attr_process_assets = bound_method ''_process_assets'' (process_assets base)\<rparr>"

text \<open>\<^verbatim>\<open>_validate_content_request\<close>, lines 125-128.\<close>

definition validate_content_request :: "dict \<Rightarrow> bool" where
  "validate_content_request request = list_all (has_key request) [''content_type'', ''title'']"

subsection \<open>The pipeline\<close>

text \<open>
  \<^verbatim>\<open>_execute_pipeline(self, request, max_retries, timeout)\<close>, lines 86-123. Each of its
  three blocks has the same shape: run the stage method through the monitor with the
  context as its argument and \<^verbatim>\<open>timeout\<close> and \<^verbatim>\<open>max_retries\<close> as keyword arguments;
  return the result if it failed; otherwise \<^verbatim>\<open>context.update(result.data)\<close>. \<open>run_stage\<close>
  is one such block: it yields the outcome the run ends with, if it ends here, and the
  context as the block leaves it. \<^verbatim>\<open>update(None)\<close> is a \<^verbatim>\<open>TypeError\<close>. The stage
  is handed the context itself; the three stage methods only read it, and a callable here
  has no way to change it.
\<close>

definition stage_kwargs :: "val \<Rightarrow> val \<Rightarrow> dict" where
  "stage_kwargs timeout max_retries = [(''timeout'', timeout), (''max_retries'', max_retries)]"

definition run_stage ::
  "'e runtime \<Rightarrow> 'e EnhancedContentCreationService \<Rightarrow> (dict ServiceResult, 'e) pyfunc \<Rightarrow> dict
     \<Rightarrow> val \<Rightarrow> val \<Rightarrow> 'e world \<Rightarrow> dict ServiceResult outcome option \<times> dict \<times> 'e world" where
  "run_stage rt self stage context timeout max_retries w =
     (case execute_with_monitoring rt (resource_monitor self) stage [VDict context]
             (stage_kwargs timeout max_retries) w of
        (Returns result, w1) \<Rightarrow>
          if failed result then (Some (Returns result), context, w1)
          else (case data result of
                  None \<Rightarrow> (Some (Raises (TypeError ''NoneType object is not iterable'')), context, w1)
                | Some d \<Rightarrow> (None, dict_update context d, w1))
      | (Raises x, w1) \<Rightarrow> (Some (Raises x), context, w1)
      | (Blocks, w1) \<Rightarrow> (Some Blocks, context, w1))"

definition execute_pipeline ::
  "'e runtime \<Rightarrow> 'e EnhancedContentCreationService \<Rightarrow> dict \<Rightarrow> val \<Rightarrow> val \<Rightarrow> 'e world
     \<Rightarrow> dict ServiceResult outcome \<times> 'e world" where
  "execute_pipeline rt self request max_retries timeout w =
     (let context = [(''request'', VDict request)]
      in case run_stage rt self (attr_generate_script self) context timeout max_retries w of
           (Some out, _, w1) \<Rightarrow> (out, w1)
         | (None, context1, w1) \<Rightarrow>
             (case run_stage rt self (attr_generate_voiceover self) context1 timeout max_retries w1 of
                (Some out, _, w2) \<Rightarrow> (out, w2)
              | (None, context2, w2) \<Rightarrow>
                  (case run_stage rt self (attr_process_assets self) context2 timeout max_retries w2 of
                     (Some out, _, w3) \<Rightarrow> (out, w3)
                   | (None, context3, w3) \<Rightarrow>
                       (Returns (ServiceResult True (Some context3) None []), w3))))"


subsection \<open>Concrete services\<close>

text \<open>
  Services to run the pipeline on. The outside state is the number of calls the voiceover
  generator has received; the script generator answers with \<open>script_result\<close>, the
  voiceover generator with \<open>voiceover_result\<close>, and the content has no assets.
\<close>

definition demo_runtime :: "nat runtime" where
  "demo_runtime =
     \<lparr>time_time = (\<lambda>_. 0), isoformat_now = (\<lambda>_. ''2024-01-01T00:00:00''),
      str_args = (\<lambda>_. ''()''), str_kwargs = (\<lambda>_. ''{}'')\<rparr>"

definition demo_request :: dict where
  "demo_request = [(''content_type'', VStr ''video''), (''title'', VStr ''Intro'')]"

definition demo_base :: "dict ServiceResult \<Rightarrow> dict ServiceResult \<Rightarrow> nat ContentCreationService" where
  "demo_base script_result voiceover_result =
     \<lparr>settings = [(''ai'', [(''max_retries'', VInt 3), (''timeout'', VInt 30)])],
      content_gen_generate_script = (\<lambda>content_type kwargs n. (Returns script_result, n)),
      voiceover_gen_generate_voiceover = (\<lambda>script kwargs n. (Returns voiceover_result, Suc n)),
      content_assets_all = (\<lambda>content n. (Returns [], n)),
      validate_asset = (\<lambda>asset asset_settings n. (True, n)),
      process_single_asset = (\<lambda>asset asset_settings n.
         (Returns (ServiceResult False None (Some ''Unsupported asset type'') []), n))\<rparr>"

definition demo_monitor :: ResourceMonitor where
  "demo_monitor = \<lparr>metrics_collector = \<lparr>metrics = 0\<rparr>\<rparr>"

definition demo_world :: "nat world" where
  "demo_world = \<lparr>permits = 4, heap = [DictObj []], ext = 0\<rparr>"

text \<open>Generator answers used below.\<close>

definition script_ok :: "dict ServiceResult" where
  "script_ok = ServiceResult True (Some [(''script'', VStr ''hello''), (''metrics'', VDict [])]) None []"

definition script_empty :: "dict ServiceResult" where
  "script_empty = ServiceResult True (Some [(''script'', VStr []), (''metrics'', VDict [])]) None []"

definition voiceover_ok :: "dict ServiceResult" where
  "voiceover_ok = ServiceResult True (Some [(''audio'', VBytes ''RIFF''), (''metrics'', VDict [])]) None []"

section \<open>Batch creation\<close>

text \<open>
  \<^verbatim>\<open>apps/content/services.py\<close>: \<^verbatim>\<open>ContentManagementService\<close> (lines 269-333) and
  \<^verbatim>\<open>ContentOrchestrationService.create_content_batch\<close> (lines 346-391). The orchestration
  service reaches the two batch generators as \<^verbatim>\<open>self.content_gen\<close> and
  \<^verbatim>\<open>self.voiceover_gen\<close> and awaits what they return: a result whose data is a list with
  one entry per configuration, \<^verbatim>\<open>None\<close> where the generation failed
  (\<^verbatim>\<open>layers/ai/content_generation.py\<close>, lines 209-219). \<^verbatim>\<open>Content.objects.create\<close> is the
  database. The three are collaborators of the service; each field below is the outcome
  of the call once awaited.
\<close>

record 'e ContentOrchestrationService =
  content_gen_batch_generate_scripts ::
    "dict list \<Rightarrow> 'e \<Rightarrow> dict option list ServiceResult outcome \<times> 'e"
  voiceover_gen_batch_generate_voiceovers ::
    "dict list \<Rightarrow> 'e \<Rightarrow> dict option list ServiceResult outcome \<times> 'e"
  content_objects_create :: "dict \<Rightarrow> 'e \<Rightarrow> val outcome \<times> 'e"

text \<open>
  The data of a batch result is either the list of a generator result handed on as it is,
  or the dictionary that \<^verbatim>\<open>process_batch_content\<close> builds, to which the monitored variant
  adds a \<^verbatim>\<open>metrics\<close> entry.
\<close>

datatype batch_entry = EResults "dict ServiceResult list" | EMetrics dict

datatype batch_data = BList "dict option list" | BDict "(string \<times> batch_entry) list"

definition bind_exn :: "exn + 'a \<Rightarrow> ('a \<Rightarrow> exn + 'b) \<Rightarrow> exn + 'b" where
  "bind_exn x k = (case x of Inl err \<Rightarrow> Inl err | Inr v \<Rightarrow> k v)"

text \<open>\<^verbatim>\<open>ContentManagementService._validate\<close>, lines 276-294.\<close>

definition validate_content :: "dict \<Rightarrow> exn + unit" where
  "validate_content d =
     (if \<not> has_key d ''content_type'' then Inl (ValidationError ''Content type is required'')
      else if \<not> has_key d ''title'' then Inl (ValidationError ''Title is required'')
      else if has_key d ''script'' \<and> (case dict_get d ''script'' of VStr _ \<Rightarrow> False | _ \<Rightarrow> True)
        then Inl (ValidationError ''Script must be a string'')
      else if has_key d ''status'' \<and>
              dict_get d ''status'' \<notin> set [VStr ''draft'', VStr ''published'', VStr ''archived'']
        then Inl (ValidationError ''Invalid content status'')
      else if has_key d ''metadata'' \<and> (case dict_get d ''metadata'' of VDict _ \<Rightarrow> False | _ \<Rightarrow> True)
        then Inl (ValidationError ''Metadata must be a dictionary'')
      else Inr ())"

text \<open>\<^verbatim>\<open>d.get(k, default)\<close>.\<close>

definition dict_get_default :: "dict \<Rightarrow> string \<Rightarrow> val \<Rightarrow> val" where
  "dict_get_default d k v = (case map_of d k of None \<Rightarrow> v | Some x \<Rightarrow> x)"

text \<open>\<^verbatim>\<open>_process_single_content\<close>, lines 308-333; both handlers build the same result.\<close>

definition process_single_content ::
  "'e ContentOrchestrationService \<Rightarrow> dict \<Rightarrow> 'e \<Rightarrow> dict ServiceResult outcome \<times> 'e" where
  "process_single_content self content_data e =
     except_Exception
       (raise_or (validate_content content_data) e (\<lambda>_.
        raise_or (getitem content_data ''content_type'') e (\<lambda>content_type.
        raise_or (getitem content_data ''title'') e (\<lambda>title.
          case content_objects_create self
                 [(''content_type'', content_type), (''title'', title),
                  (''script'', dict_get_default content_data ''script'' (VStr [])),
                  (''status'', dict_get_default content_data ''status'' (VStr ''draft'')),
                  (''metadata'', dict_get_default content_data ''metadata'' (VDict []))] e of
            (Returns content, e1) \<Rightarrow>
              (Returns (ServiceResult True (Some [(''content'', content)]) None []), e1)
          | (Raises x, e1) \<Rightarrow> (Raises x, e1)
          | (Blocks, e1) \<Rightarrow> (Blocks, e1)))))"

text \<open>\<^verbatim>\<open>process_batch_content\<close>, lines 296-306.\<close>

fun process_batch_loop ::
  "'e ContentOrchestrationService \<Rightarrow> dict list \<Rightarrow> dict ServiceResult list \<Rightarrow> 'e
     \<Rightarrow> dict ServiceResult list outcome \<times> 'e" where
  "process_batch_loop self [] results e = (Returns results, e)"
| "process_batch_loop self (content_data # rest) results e =
     (case process_single_content self content_data e of
        (Returns result, e1) \<Rightarrow> process_batch_loop self rest (results @ [result]) e1
      | (Raises x, e1) \<Rightarrow> (Raises x, e1)
      | (Blocks, e1) \<Rightarrow> (Blocks, e1))"

definition process_batch_content ::
  "'e ContentOrchestrationService \<Rightarrow> dict list \<Rightarrow> 'e \<Rightarrow> batch_data ServiceResult outcome \<times> 'e" where
  "process_batch_content self content_list e =
     except_Exception
       (case process_batch_loop self content_list [] e of
          (Returns results, e1) \<Rightarrow>
            (Returns (ServiceResult True (Some (BDict [(''results'', EResults results)])) None []), e1)
        | (Raises x, e1) \<Rightarrow> (Raises x, e1)
        | (Blocks, e1) \<Rightarrow> (Blocks, e1))"

text \<open>
  The pieces of \<^verbatim>\<open>create_content_batch\<close>. An entry of a generator's list counts as present
  when it is truthy: not \<^verbatim>\<open>None\<close> and not an empty dictionary. \<^verbatim>\<open>data[i]\<close> raises on
  \<^verbatim>\<open>None\<close> and beyond the end of the list.
\<close>

definition truthy_item :: "dict option \<Rightarrow> bool" where
  "truthy_item x = (case x of None \<Rightarrow> False | Some d \<Rightarrow> d \<noteq> [])"

definition index :: "'a list option \<Rightarrow> nat \<Rightarrow> exn + 'a" where
  "index xs i =
     (case xs of
        None \<Rightarrow> Inl (TypeError ''NoneType object is not subscriptable'')
      | Some ys \<Rightarrow> if i < length ys then Inr (ys ! i) else Inl (IndexError ''list index out of range''))"

text \<open>
  Lines 355-358: \<^verbatim>\<open>[{'text': result['script']} for result in script_results.data if
  result is not None]\<close>. Failed scripts leave no entry, so the list can be shorter than the
  batch.
\<close>

fun voiceover_configs :: "dict option list \<Rightarrow> exn + dict list" where
  "voiceover_configs [] = Inr []"
| "voiceover_configs (None # rest) = voiceover_configs rest"
| "voiceover_configs (Some result # rest) =
     bind_exn (getitem result ''script'') (\<lambda>script.
     bind_exn (voiceover_configs rest) (\<lambda>configs. Inr ([(''text'', script)] # configs)))"

definition iterate :: "'a list option \<Rightarrow> exn + 'a list" where
  "iterate xs = (case xs of None \<Rightarrow> Inl (TypeError ''NoneType object is not iterable'') | Some ys \<Rightarrow> Inr ys)"

text \<open>Lines 367-374: the dictionary built for one request.\<close>

definition content_item :: "dict \<Rightarrow> dict \<Rightarrow> dict \<Rightarrow> exn + dict" where
  "content_item config script voiceover =
     bind_exn (getitem config ''title'') (\<lambda>title.
     bind_exn (getitem config ''content_type'') (\<lambda>content_type.
     bind_exn (getitem script ''script'') (\<lambda>s.
     bind_exn (getitem script ''metrics'') (\<lambda>script_metrics.
     bind_exn (getitem voiceover ''audio'') (\<lambda>audio.
     bind_exn (getitem voiceover ''metrics'') (\<lambda>voiceover_metrics.
       Inr [(''title'', title), (''content_type'', content_type), (''script'', s),
            (''script_metrics'', script_metrics), (''voiceover'', audio),
            (''voiceover_metrics'', voiceover_metrics)]))))))"

text \<open>
  Lines 364-375: \<^verbatim>\<open>for i, config in enumerate(batch_config)\<close>. Both lists are read at
  the position \<open>i\<close> of the request; \<^verbatim>\<open>and\<close> does not read the voiceover list when the
  script entry is not truthy. A request without both entries adds nothing.
\<close>

fun content_items ::
  "nat \<Rightarrow> dict list \<Rightarrow> dict option list option \<Rightarrow> dict option list option \<Rightarrow> exn + dict list" where
  "content_items i [] script_data voiceover_data = Inr []"
| "content_items i (config # rest) script_data voiceover_data =
     bind_exn (index script_data i) (\<lambda>script.
       if \<not> truthy_item script then content_items (Suc i) rest script_data voiceover_data
       else
         bind_exn (index voiceover_data i) (\<lambda>voiceover.
           if \<not> truthy_item voiceover then content_items (Suc i) rest script_data voiceover_data
           else
             bind_exn (content_item config (the script) (the voiceover)) (\<lambda>item.
             bind_exn (content_items (Suc i) rest script_data voiceover_data) (\<lambda>items.
               Inr (item # items)))))"

text \<open>\<^verbatim>\<open>return script_results\<close>: a generator's failed result handed on as it is.\<close>

definition handed_on :: "dict option list ServiceResult \<Rightarrow> batch_data ServiceResult" where
  "handed_on r = ServiceResult (success r) (map_option BList (data r)) (error r) (error_details r)"

text \<open>\<^verbatim>\<open>create_content_batch\<close>, lines 346-391 (the log line is not modelled).\<close>

definition create_content_batch ::
  "'e ContentOrchestrationService \<Rightarrow> dict list \<Rightarrow> 'e \<Rightarrow> batch_data ServiceResult outcome \<times> 'e" where
  "create_content_batch self batch_config e =
     except_Exception
       (case content_gen_batch_generate_scripts self batch_config e of
          (Returns script_results, e1) \<Rightarrow>
            if failed script_results then (Returns (handed_on script_results), e1)
            else
              raise_or (bind_exn (iterate (data script_results)) voiceover_configs) e1
                (\<lambda>configs.
                   case voiceover_gen_batch_generate_voiceovers self configs e1 of
                     (Returns voiceover_results, e2) \<Rightarrow>
                       if failed voiceover_results then (Returns (handed_on voiceover_results), e2)
                       else
                         raise_or (content_items 0 batch_config (data script_results)
                                     (data voiceover_results)) e2
                           (\<lambda>items. process_batch_content self items e2)
                   | (Raises x, e2) \<Rightarrow> (Raises x, e2)
                   | (Blocks, e2) \<Rightarrow> (Blocks, e2))
        | (Raises x, e1) \<Rightarrow> (Raises x, e1)
        | (Blocks, e1) \<Rightarrow> (Blocks, e1))"

subsection \<open>The monitored batch\<close>

text \<open>
  \<^verbatim>\<open>apps/content/enhanced_services.py\<close>, lines 268-309. \<^verbatim>\<open>BatchMonitor\<close> holds a start
  time and a dictionary of metrics.
\<close>

record BatchMonitor =
  start_time :: "real option"
  bm_metrics :: dict

text \<open>
  What a call evaluates to before anything is awaited: a function declared with
  \<^verbatim>\<open>async def\<close> returns a coroutine object that wraps its result, any other function
  returns its result. \<^verbatim>\<open>_batch_monitor\<close> is declared \<^verbatim>\<open>async def\<close> (line 288).
\<close>

datatype 'a called = Coroutine 'a | Plain 'a

definition batch_monitor :: "BatchMonitor called" where
  "batch_monitor = Coroutine \<lparr>start_time = None, bm_metrics = []\<rparr>"

text \<open>
  \<^verbatim>\<open>async with EXPR as monitor\<close> needs an object with \<^verbatim>\<open>__aenter__\<close> and \<^verbatim>\<open>__aexit__\<close>.
  A coroutine object has neither: the statement raises (a \<^verbatim>\<open>TypeError\<close>, or an
  \<^verbatim>\<open>AttributeError\<close> before Python 3.11) and its body does not run.
\<close>

definition async_with :: "BatchMonitor called \<Rightarrow> exn + BatchMonitor" where
  "async_with x =
     (case x of
        Coroutine _ \<Rightarrow>
          Inl (TypeError ''coroutine object does not support the asynchronous context manager protocol'')
      | Plain monitor \<Rightarrow> Inr monitor)"

text \<open>\<^verbatim>\<open>len(result.data)\<close>: a dictionary has as many elements as keys.\<close>

definition py_len :: "batch_data option \<Rightarrow> exn + int" where
  "py_len d =
     (case d of
        None \<Rightarrow> Inl (TypeError ''object of type NoneType has no len()'')
      | Some (BList xs) \<Rightarrow> Inr (int (length xs))
      | Some (BDict m) \<Rightarrow> Inr (int (length m)))"

text \<open>\<^verbatim>\<open>result.data['metrics'] = value\<close>.\<close>

definition set_metrics :: "batch_data option \<Rightarrow> dict \<Rightarrow> exn + batch_data" where
  "set_metrics d m =
     (case d of
        None \<Rightarrow> Inl (TypeError ''NoneType object does not support item assignment'')
      | Some (BList xs) \<Rightarrow> Inl (TypeError ''list indices must be integers or slices, not str'')
      | Some (BDict entries) \<Rightarrow> Inr (BDict (AList.update ''metrics'' (EMetrics m) entries)))"

text \<open>
  The body of the \<^verbatim>\<open>async with\<close> block of \<^verbatim>\<open>_create_batch_with_monitoring\<close>, lines 273-286,
  between \<^verbatim>\<open>__aenter__\<close> and \<^verbatim>\<open>__aexit__\<close>, for a monitor that could be entered. The
  summary is the dictionary passed to \<^verbatim>\<open>record_metrics\<close>; the conditional expression of
  \<^verbatim>\<open>failed\<close> covers the whole subtraction. \<^verbatim>\<open>get_metrics\<close> returns the monitor's own
  dictionary, so the duration that \<^verbatim>\<open>__aexit__\<close> adds shows in the result too.
\<close>

definition batch_summary :: "dict list \<Rightarrow> batch_data ServiceResult \<Rightarrow> exn + dict" where
  "batch_summary batch_config result =
     bind_exn (if success result then py_len (data result) else Inr 0) (\<lambda>successful.
     bind_exn (if success result
               then bind_exn (py_len (data result)) (\<lambda>n. Inr (int (length batch_config) - n))
               else Inr (int (length batch_config))) (\<lambda>failed_count.
       Inr [(''total'', VInt (int (length batch_config))),
            (''successful'', VInt successful),
            (''failed'', VInt failed_count)]))"

definition monitored_batch ::
  "'e runtime \<Rightarrow> 'e ContentOrchestrationService \<Rightarrow> BatchMonitor \<Rightarrow> dict list \<Rightarrow> 'e
     \<Rightarrow> batch_data ServiceResult outcome \<times> 'e" where
  "monitored_batch rt self monitor batch_config e =
     (let started = time_time rt e
      in case create_content_batch self batch_config e of
           (Returns result, e1) \<Rightarrow>
             raise_or (batch_summary batch_config result) e1 (\<lambda>summary.
               (let recorded = dict_update (bm_metrics monitor) summary;
                    final = dict_update recorded [(''duration'', VFloat (time_time rt e1 - started))]
                in if success result
                   then raise_or (set_metrics (data result) final) e1 (\<lambda>d.
                          (Returns (ServiceResult True (Some d) (error result) (error_details result)), e1))
                   else (Returns result, e1)))
         | (Raises x, e1) \<Rightarrow> (Raises x, e1)
         | (Blocks, e1) \<Rightarrow> (Blocks, e1))"

text \<open>\<^verbatim>\<open>_create_batch_with_monitoring\<close>, lines 268-286.\<close>

definition create_batch_with_monitoring ::
  "'e runtime \<Rightarrow> 'e ContentOrchestrationService \<Rightarrow> dict list \<Rightarrow> 'e
     \<Rightarrow> batch_data ServiceResult outcome \<times> 'e" where
  "create_batch_with_monitoring rt self batch_config e =
     raise_or (async_with batch_monitor) e (\<lambda>monitor. monitored_batch rt self monitor batch_config e)"

subsection \<open>A concrete batch\<close>

text \<open>
  Three requests; every script is generated; the voiceover of the second request fails,
  or none does. Each created content is an opaque object.
\<close>

definition demo_batch :: "dict list" where
  "demo_batch =
     [[(''content_type'', VStr ''video''), (''title'', VStr ''One'')],
      [(''content_type'', VStr ''video''), (''title'', VStr ''Two'')],
      [(''content_type'', VStr ''video''), (''title'', VStr ''Three'')]]"

definition demo_script :: "dict option" where
  "demo_script = Some [(''script'', VStr ''hello''), (''metrics'', VDict [])]"

definition demo_voiceover :: "dict option" where
  "demo_voiceover = Some [(''audio'', VBytes ''RIFF''), (''metrics'', VDict [])]"

definition demo_orchestration :: "dict option list \<Rightarrow> nat ContentOrchestrationService" where
  "demo_orchestration voiceovers =
     \<lparr>content_gen_batch_generate_scripts =
        (\<lambda>configs n. (Returns (ServiceResult True (Some (map (\<lambda>_. demo_script) configs)) None []), n)),
      voiceover_gen_batch_generate_voiceovers =
        (\<lambda>configs n. (Returns (ServiceResult True (Some voiceovers) None []), n)),
      content_objects_create = (\<lambda>fields n. (Returns (VObj n), Suc n))\<rparr>"

section \<open>Properties: MetricsCollector\<close>

subsection \<open>Heap lemmas\<close>

text \<open>
  Allocation appends to the heap, so whatever is read below the old length is unchanged;
  binding a missing operation keeps the collector well formed.
\<close>

lemma dict_at_append: "a < length h \<Longrightarrow> dict_at (h @ xs) a = dict_at h a"
  by (simp add: dict_at_def nth_append)

lemma list_at_append: "a < length h \<Longrightarrow> list_at (h @ xs) a = list_at h a"
  by (simp add: list_at_def nth_append)

lemma wf_refs:
  assumes "wf_collector self h" and "(k, v) \<in> set (dict_at h (metrics self))"
  shows "\<exists>l. v = Ref l \<and> l < length h \<and> is_ListObj (h ! l)"
  using assms by (auto simp: wf_collector_def list_all_iff split: hval.splits)

lemma wf_refs_neq:
  assumes "wf_collector self h" and "(k, Ref l) \<in> set (dict_at h (metrics self))"
  shows "l \<noteq> metrics self"
proof
  assume "l = metrics self"
  with wf_refs[OF assms] have "is_ListObj (h ! metrics self)" by simp
  moreover from assms(1) have "is_DictObj (h ! metrics self)" by (simp add: wf_collector_def)
  ultimately show False by (cases "h ! metrics self") auto
qed

lemma observe_append:
  assumes "wf_collector self h"
  shows "observe self (h @ xs) = observe self h"
proof -
  from assms have a: "metrics self < length h" by (simp add: wf_collector_def)
  have "map (\<lambda>(k, v). (k, deref (h @ xs) v)) (dict_at h (metrics self)) =
        map (\<lambda>(k, v). (k, deref h v)) (dict_at h (metrics self))"
  proof (rule map_cong[OF refl])
    fix p assume p: "p \<in> set (dict_at h (metrics self))"
    obtain k v where kv: "p = (k, v)" by (cases p)
    from wf_refs[OF assms] p kv obtain l where "v = Ref l" "l < length h" by blast
    then show "(case p of (k, v) \<Rightarrow> (k, deref (h @ xs) v)) = (case p of (k, v) \<Rightarrow> (k, deref h v))"
      by (simp add: kv deref_def list_at_append)
  qed
  then show ?thesis by (simp add: observe_def dict_at_append[OF a])
qed

lemma update_fresh: "k \<notin> fst ` set d \<Longrightarrow> AList.update k v d = d @ [(k, v)]"
  by (induction d) auto

lemma set_update_subset: "set (AList.update k v d) \<subseteq> insert (k, v) (set d)"
  by (induction d) auto

lemma getitem_bound:
  "map_of (dict_at h a) k = Some (Ref l) \<Longrightarrow> defaultdict_getitem a k h = (l, h)"
  by (simp add: defaultdict_getitem_def)

lemma wf_getitem:
  assumes wf: "wf_collector self h"
  shows "wf_collector self (snd (defaultdict_getitem (metrics self) k h))"
proof (cases "\<exists>l. map_of (dict_at h (metrics self)) k = Some (Ref l)")
  case True
  then show ?thesis using wf by (auto simp: defaultdict_getitem_def)
next
  case False
  let ?a = "metrics self"
  let ?d = "AList.update k (Ref (length h)) (dict_at h ?a)"
  let ?h = "(h @ [ListObj []])[?a := DictObj ?d]"
  from wf have a: "?a < length h" and da: "is_DictObj (h ! ?a)" by (simp_all add: wf_collector_def)
  from False have eq: "snd (defaultdict_getitem ?a k h) = ?h"
    by (auto simp: defaultdict_getitem_def split: option.splits hval.splits)
  have dat: "dict_at ?h ?a = ?d" using a by (simp add: dict_at_def)
  have "list_all (\<lambda>(k, v). case v of Ref l \<Rightarrow> l < length ?h \<and> is_ListObj (?h ! l) | Imm _ \<Rightarrow> False) ?d"
    unfolding list_all_iff
  proof
    fix p assume "p \<in> set ?d"
    with set_update_subset have "p = (k, Ref (length h)) \<or> p \<in> set (dict_at h ?a)" by fastforce
    then show "case p of (k, v) \<Rightarrow> (case v of Ref l \<Rightarrow> l < length ?h \<and> is_ListObj (?h ! l) | Imm _ \<Rightarrow> False)"
    proof
      assume "p = (k, Ref (length h))"
      then show ?thesis using a by (simp add: nth_list_update nth_append)
    next
      assume p: "p \<in> set (dict_at h ?a)"
      obtain k' v where kv: "p = (k', v)" by (cases p)
      from wf_refs[OF wf] p kv obtain l where l: "v = Ref l" "l < length h" "is_ListObj (h ! l)" by blast
      from wf_refs_neq[OF wf] p kv l have "l \<noteq> ?a" by blast
      with l kv show ?thesis by (simp add: nth_list_update nth_append)
    qed
  qed
  then have 3: "list_all (\<lambda>(k, v). case v of Ref l \<Rightarrow> l < length ?h \<and> is_ListObj (?h ! l) | Imm _ \<Rightarrow> False)
      (dict_at ?h ?a)" by (simp only: dat)
  have 1: "?a < length ?h" using a by simp
  have 2: "is_DictObj (?h ! ?a)" using a by simp
  from 1 2 3 show ?thesis unfolding eq wf_collector_def by (intro conjI)
qed

subsection \<open>What a caller can do with the result of \<open>get_metrics\<close>\<close>

text \<open>
  Claim C7 says that the value returned by \<^verbatim>\<open>get_metrics\<close> is independent of the
  collector's store, the per-operation lists inside it included. The lists are not
  copied: \<^verbatim>\<open>dict(self.metrics)\<close> copies the bindings, and each binding still points at the
  collector's own list. Below, a metric is recorded under \<^verbatim>\<open>op\<close>, the caller takes the
  snapshot (address 2), finds the list of \<^verbatim>\<open>op\<close> in it (address 1) and empties that list
  in place, as \<^verbatim>\<open>snapshot['op'].clear()\<close> does: the collector then shows no metric
  for \<^verbatim>\<open>op\<close>.
\<close>

theorem C7_counterexample:
  "(let (c, h0) = MetricsCollector_init [];
        h1 = record_metric c ''op'' 1 True None ''t'' h0;
        (r, h2) = get_metrics c None h1
    in r = Returns 2 \<and> map_of (dict_at h2 2) ''op'' = Some (Ref 1) \<and>
       observe c h2 \<noteq> [(''op'', [])] \<and>
       observe c (h2[1 := ListObj []]) = [(''op'', [])])"
  by (simp add: MetricsCollector_init_def record_metric_def defaultdict_getitem_def
      list_append_def get_metrics_def dict_at_def list_at_def observe_def deref_def)

text \<open>
  Claim C7 as amended: the dictionary that \<^verbatim>\<open>get_metrics\<close> returns, with or without an
  operation, is a new object, so whatever the caller does to that dictionary itself
  (adding, removing or rebinding its keys: the object at the returned address becomes
  some other object \<open>ob\<close>) leaves what the collector shows unchanged. Nothing is said
  about the lists the dictionary points at.
\<close>

theorem C7_snapshot_top_level_independent:
  assumes wf: "wf_collector self h"
    and call: "get_metrics self operation h = (Returns r, h')"
  shows "observe self (h'[r := ob]) = observe self h'"
proof (cases "operation \<noteq> None \<and> operation \<noteq> Some []")
  case True
  obtain l h1 where g: "defaultdict_getitem (metrics self) (the operation) h = (l, h1)"
    by (cases "defaultdict_getitem (metrics self) (the operation) h")
  from wf_getitem[OF wf, of "the operation"] g have wf1: "wf_collector self h1" by simp
  from call True g obtain d where "r = length h1" "h' = h1 @ [DictObj d]"
    by (auto simp: get_metrics_def split: sum.splits)
  then show ?thesis using observe_append[OF wf1] by simp
next
  case False
  with call have "r = length h" "h' = h @ [DictObj (dict_at h (metrics self))]"
    by (auto simp: get_metrics_def)
  then show ?thesis using observe_append[OF wf] by simp
qed

text \<open>
  The amended claim at a concrete collector holding one metric: the caller empties the
  snapshot, the collector still shows the metric.
\<close>

theorem C7_snapshot_top_level_independent_witness:
  "wf_collector \<lparr>metrics = 0\<rparr> [DictObj [(''op'', Ref 1)], ListObj [[(''success'', VBool True)]]]
   \<and> get_metrics \<lparr>metrics = 0\<rparr> None [DictObj [(''op'', Ref 1)], ListObj [[(''success'', VBool True)]]]
       = (Returns 2, [DictObj [(''op'', Ref 1)], ListObj [[(''success'', VBool True)]], DictObj [(''op'', Ref 1)]])
   \<and> observe \<lparr>metrics = 0\<rparr>
        ([DictObj [(''op'', Ref 1)], ListObj [[(''success'', VBool True)]], DictObj [(''op'', Ref 1)]][2 := DictObj []])
       = [(''op'', [[(''success'', VBool True)]])]"
proof -
  let ?c = "\<lparr>metrics = 0\<rparr>"
  let ?h = "[DictObj [(''op'', Ref 1)], ListObj [[(''success'', VBool True)]]]"
  let ?h' = "[DictObj [(''op'', Ref 1)], ListObj [[(''success'', VBool True)]], DictObj [(''op'', Ref 1)]]"
  have wf: "wf_collector ?c ?h" by (simp add: wf_collector_def dict_at_def)
  have call: "get_metrics ?c None ?h = (Returns 2, ?h')" by (simp add: get_metrics_def dict_at_def)
  have "observe ?c ?h' = [(''op'', [[(''success'', VBool True)]])]"
    by (simp add: observe_def dict_at_def deref_def list_at_def)
  with C7_snapshot_top_level_independent[OF wf call, of "DictObj []"] wf call show ?thesis by simp
qed

subsection \<open>Exceptions\<close>

text \<open>
  Claim C8 says that no public operation of the collector raises. \<^verbatim>\<open>record_metric\<close>,
  \<^verbatim>\<open>clear_metrics\<close> and \<^verbatim>\<open>get_metrics()\<close> have no raising step. \<^verbatim>\<open>get_metrics(op)\<close>
  applies \<^verbatim>\<open>dict\<close> to the list of metrics of \<^verbatim>\<open>op\<close>; every metric is a dictionary of
  four keys, which is not a key/value pair, so the call raises \<^verbatim>\<open>ValueError\<close> as soon
  as one metric has been recorded under \<^verbatim>\<open>op\<close>.
\<close>

theorem C8_get_metrics_raises_after_record:
  "(let (c, h0) = MetricsCollector_init [];
        h1 = record_metric c ''op'' 1 True None ''t'' h0
    in fst (get_metrics c (Some ''op'') h1)) =
   Raises (ValueError ''dictionary update sequence element has wrong length; 2 is required'')"
  by (simp add: MetricsCollector_init_def record_metric_def defaultdict_getitem_def
      list_append_def get_metrics_def dict_at_def list_at_def)

subsection \<open>Asking for an operation that has no metrics\<close>

text \<open>
  Claim C9 says that \<^verbatim>\<open>get_metrics\<close> called with an operation name under which nothing
  was recorded returns an empty mapping and binds the name in the collector. The name is
  tested for truth, not for \<^verbatim>\<open>None\<close>: with the empty string as the name, the call takes
  the branch for no operation, returns the whole (here non-empty) mapping and binds
  nothing.
\<close>

theorem C9_counterexample:
  "(let (c, h0) = MetricsCollector_init [];
        h1 = record_metric c ''op'' 1 True None ''t'' h0;
        (r, h2) = get_metrics c (Some []) h1
    in \<not> has_key (dict_at h1 (metrics c)) [] \<and>
       r = Returns 2 \<and> dict_at h2 2 = [(''op'', Ref 1)] \<and>
       \<not> has_key (dict_at h2 (metrics c)) [])"
  by (simp add: MetricsCollector_init_def record_metric_def defaultdict_getitem_def
      list_append_def get_metrics_def dict_at_def list_at_def has_key_def)

text \<open>
  The two ways in which a non-empty operation name can be without metrics: the collector
  does not hold the name, or holds it with an empty list.
\<close>

lemma map_of_observe:
  "map_of (observe self h) k = map_option (deref h) (map_of (dict_at h (metrics self)) k)"
proof -
  have "map_of (map (\<lambda>(k, v). (k, deref h v)) d) k = map_option (deref h) (map_of d k)" for d
    by (induction d) auto
  then show ?thesis by (simp add: observe_def)
qed

lemma get_metrics_absent:
  assumes wf: "wf_collector self h"
    and nonempty: "operation \<noteq> []"
    and fresh: "map_of (dict_at h (metrics self)) operation = None"
  shows "get_metrics self (Some operation) h
           = (Returns (Suc (length h)),
              (h @ [ListObj []])[metrics self :=
                 DictObj (dict_at h (metrics self) @ [(operation, Ref (length h))])] @ [DictObj []])"
    and "observe self
           ((h @ [ListObj []])[metrics self :=
                 DictObj (dict_at h (metrics self) @ [(operation, Ref (length h))])] @ [DictObj []])
         = observe self h @ [(operation, [])]"
proof -
  let ?a = "metrics self"
  let ?d = "dict_at h ?a @ [(operation, Ref (length h))]"
  let ?h1 = "(h @ [ListObj []])[?a := DictObj ?d]"
  from wf have a: "?a < length h" by (simp add: wf_collector_def)
  note none = fresh
  then have notin: "operation \<notin> fst ` set (dict_at h ?a)" by (simp add: map_of_eq_None_iff)
  have g: "defaultdict_getitem ?a operation h = (length h, ?h1)"
    using none by (simp add: defaultdict_getitem_def update_fresh[OF notin])
  have l1: "list_at ?h1 (length h) = []" using a by (simp add: list_at_def nth_list_update nth_append)
  have gm: "get_metrics self (Some operation) h = (Returns (Suc (length h)), ?h1 @ [DictObj []])"
    using nonempty by (simp add: get_metrics_def g l1)
  have wf1: "wf_collector self ?h1" using wf_getitem[OF wf, of operation] g by simp
  have d1: "dict_at ?h1 ?a = ?d" using a by (simp add: dict_at_def)
  have old: "map (\<lambda>(k, v). (k, deref ?h1 v)) (dict_at h ?a) = map (\<lambda>(k, v). (k, deref h v)) (dict_at h ?a)"
  proof (rule map_cong[OF refl])
    fix p assume p: "p \<in> set (dict_at h ?a)"
    obtain k v where kv: "p = (k, v)" by (cases p)
    from wf_refs[OF wf] p kv obtain l where l: "v = Ref l" "l < length h" by blast
    from wf_refs_neq[OF wf] p kv l have "l \<noteq> ?a" by blast
    with l show "(case p of (k, v) \<Rightarrow> (k, deref ?h1 v)) = (case p of (k, v) \<Rightarrow> (k, deref h v))"
      by (simp add: kv deref_def list_at_def nth_list_update nth_append)
  qed
  have "observe self ?h1 = map (\<lambda>(k, v). (k, deref ?h1 v)) (dict_at h ?a) @ [(operation, deref ?h1 (Ref (length h)))]"
    by (simp only: observe_def d1 map_append list.map prod.case)
  also have "\<dots> = observe self h @ [(operation, [])]"
    by (simp only: old) (simp add: observe_def deref_def l1)
  finally have obs1: "observe self ?h1 = observe self h @ [(operation, [])]" .
  have obs: "observe self (?h1 @ [DictObj []]) = observe self h @ [(operation, [])]"
    using observe_append[OF wf1] obs1 by simp
  from gm show "get_metrics self (Some operation) h
           = (Returns (Suc (length h)),
              (h @ [ListObj []])[metrics self :=
                 DictObj (dict_at h (metrics self) @ [(operation, Ref (length h))])] @ [DictObj []])" .
  from obs show "observe self
           ((h @ [ListObj []])[metrics self :=
                 DictObj (dict_at h (metrics self) @ [(operation, Ref (length h))])] @ [DictObj []])
         = observe self h @ [(operation, [])]" .
qed


lemma get_metrics_empty_list:
  assumes wf: "wf_collector self h"
    and nonempty: "operation \<noteq> []"
    and held: "map_of (dict_at h (metrics self)) operation = Some (Ref l)"
    and empty: "list_at h l = []"
  shows "get_metrics self (Some operation) h = (Returns (length h), h @ [DictObj []])"
  using nonempty held empty
  by (simp add: get_metrics_def defaultdict_getitem_def)

text \<open>
  Claim C9 as amended, for a non-empty operation name under which the collector shows no
  metric: the call returns a new empty dictionary; afterwards the collector shows the name
  with an empty list and every other operation as before, and the dictionary returned by
  a following \<^verbatim>\<open>get_metrics()\<close> has the name as a key.
\<close>

theorem C9_get_metrics_unrecorded_inserts:
  assumes wf: "wf_collector self h"
    and nonempty: "operation \<noteq> []"
    and unrecorded: "map_of (observe self h) operation = None \<or> map_of (observe self h) operation = Some []"
  shows "\<exists>r h'. get_metrics self (Some operation) h = (Returns r, h')
           \<and> dict_at h' r = []
           \<and> map_of (observe self h') operation = Some []
           \<and> (\<forall>k. k \<noteq> operation \<longrightarrow> map_of (observe self h') k = map_of (observe self h) k)
           \<and> (\<exists>r2 h2. get_metrics self None h' = (Returns r2, h2) \<and> has_key (dict_at h2 r2) operation)"
proof -
  let ?a = "metrics self"
  from wf have a: "?a < length h" by (simp add: wf_collector_def)
  show ?thesis
  proof (cases "map_of (dict_at h ?a) operation")
    case None
    let ?h1 = "(h @ [ListObj []])[?a := DictObj (dict_at h ?a @ [(operation, Ref (length h))])]"
    let ?h' = "?h1 @ [DictObj []]"
    note gm = get_metrics_absent(1)[OF wf nonempty None]
    note obs = get_metrics_absent(2)[OF wf nonempty None]
    have none: "map_of (observe self h) operation = None" by (simp add: map_of_observe None)
    have 1: "dict_at ?h' (Suc (length h)) = []" by (simp add: dict_at_def nth_append)
    have 2: "map_of (observe self ?h') operation = Some []"
      by (simp add: obs map_add_def none)
    have 3: "\<forall>k. k \<noteq> operation \<longrightarrow> map_of (observe self ?h') k = map_of (observe self h) k"
      by (auto simp: obs map_add_def split: option.splits)
    have d: "dict_at ?h' ?a = dict_at h ?a @ [(operation, Ref (length h))]"
      using a by (simp add: dict_at_def nth_append)
    have gm2: "get_metrics self None ?h' = (Returns (length ?h'), ?h' @ [DictObj (dict_at ?h' ?a)])"
      by (simp add: get_metrics_def)
    have "dict_at (?h' @ [DictObj (dict_at ?h' ?a)]) (length ?h') = dict_at ?h' ?a"
      by (simp add: dict_at_def nth_append)
    then have 4: "has_key (dict_at (?h' @ [DictObj (dict_at ?h' ?a)]) (length ?h')) operation"
      by (simp only: d) (simp add: has_key_def None)
    from gm 1 2 3 gm2 4 show ?thesis by (intro exI conjI)
  next
    case (Some v)
    then have "(operation, v) \<in> set (dict_at h ?a)" by (rule map_of_SomeD)
    from wf_refs[OF wf this] obtain l where v: "v = Ref l" and l: "l < length h" by blast
    from unrecorded Some v have empty: "list_at h l = []"
      by (simp add: map_of_observe deref_def)
    let ?h' = "h @ [DictObj []]"
    from get_metrics_empty_list[OF wf nonempty Some[unfolded v] empty]
    have gm: "get_metrics self (Some operation) h = (Returns (length h), ?h')" .
    have obs: "observe self ?h' = observe self h" by (rule observe_append[OF wf])
    have 1: "dict_at ?h' (length h) = []" by (simp add: dict_at_def)
    have 2: "map_of (observe self ?h') operation = Some []"
      by (simp add: obs map_of_observe Some v deref_def empty)
    have 3: "\<forall>k. k \<noteq> operation \<longrightarrow> map_of (observe self ?h') k = map_of (observe self h) k"
      by (simp add: obs)
    have d: "dict_at ?h' ?a = dict_at h ?a" by (rule dict_at_append[OF a])
    have gm2: "get_metrics self None ?h' = (Returns (length ?h'), ?h' @ [DictObj (dict_at ?h' ?a)])"
      by (simp add: get_metrics_def)
    have "dict_at (?h' @ [DictObj (dict_at ?h' ?a)]) (length ?h') = dict_at ?h' ?a"
      by (simp add: dict_at_def nth_append)
    then have 4: "has_key (dict_at (?h' @ [DictObj (dict_at ?h' ?a)]) (length ?h')) operation"
      by (simp only: d) (simp add: has_key_def Some)
    from gm 1 2 3 gm2 4 show ?thesis by (intro exI conjI)
  qed
qed

text \<open>The amended claim at a collector that holds \<^verbatim>\<open>op\<close> and is asked for \<^verbatim>\<open>render\<close>.\<close>

theorem C9_get_metrics_unrecorded_inserts_witness:
  "wf_collector \<lparr>metrics = 0\<rparr> [DictObj [(''op'', Ref 1)], ListObj []]
   \<and> ''render'' \<noteq> []
   \<and> map_of (observe \<lparr>metrics = 0\<rparr> [DictObj [(''op'', Ref 1)], ListObj []]) ''render'' = None
   \<and> (\<exists>r h'. get_metrics \<lparr>metrics = 0\<rparr> (Some ''render'') [DictObj [(''op'', Ref 1)], ListObj []]
                 = (Returns r, h')
            \<and> dict_at h' r = []
            \<and> map_of (observe \<lparr>metrics = 0\<rparr> h') ''render'' = Some []
            \<and> map_of (observe \<lparr>metrics = 0\<rparr> h') ''op'' = Some [])"
proof -
  let ?c = "\<lparr>metrics = 0\<rparr>"
  let ?h = "[DictObj [(''op'', Ref 1)], ListObj []]"
  have wf: "wf_collector ?c ?h" by (simp add: wf_collector_def dict_at_def)
  have ne: "''render'' \<noteq> []" by simp
  have obs: "observe ?c ?h = [(''op'', [])]" by (simp add: observe_def dict_at_def deref_def list_at_def)
  then have fresh: "map_of (observe ?c ?h) ''render'' = None" by simp
  from C9_get_metrics_unrecorded_inserts[OF wf ne disjI1[OF fresh]] obtain r h' where
    "get_metrics ?c (Some ''render'') ?h = (Returns r, h')" "dict_at h' r = []"
    "map_of (observe ?c h') ''render'' = Some []"
    "\<forall>k. k \<noteq> ''render'' \<longrightarrow> map_of (observe ?c h') k = map_of (observe ?c ?h) k"
    by (elim exE conjE)
  moreover from this(4) obs have "map_of (observe ?c h') ''op'' = Some []" by simp
  ultimately have "\<exists>r h'. get_metrics ?c (Some ''render'') ?h = (Returns r, h')
            \<and> dict_at h' r = []
            \<and> map_of (observe ?c h') ''render'' = Some []
            \<and> map_of (observe ?c h') ''op'' = Some []"
    by (intro exI conjI)
  with wf ne fresh show ?thesis by (intro conjI)
qed

section \<open>Properties: ResourceMonitor\<close>

subsection \<open>One call, one invocation\<close>





text \<open>
  A call that returns or raises leaves the number of free slots as it found it, and found
  at least one.
\<close>

lemma execute_releases_slot:
  assumes "execute_with_monitoring rt self f args kwargs w = (res, w')" and "res \<noteq> Blocks"
  shows "permits w' = permits w \<and> 0 < permits w"
  using assms
  by (auto simp: execute_with_monitoring_def acquire_def release_def Let_def
      split: if_splits prod.splits outcome.splits)

subsection \<open>Concurrent callers\<close>

text \<open>
  The method is its first half, then the work, then \<open>leave\<close>: with no slot free it
  waits; with a slot it takes it, and either the work does not come back and the call
  stays inside the block, holding the slot, or the work comes back and the call runs
  \<open>leave\<close> on the world it entered, with the clock reading it took on entry.
\<close>

lemma execute_with_monitoring_steps:
  "execute_with_monitoring rt self func args kwargs w =
     (if permits w = 0 then (Blocks, w)
      else (case func_call func args kwargs (ext w) of
              (res, e1) \<Rightarrow>
                (case exited res of
                   None \<Rightarrow> (Blocks, (acquire w)\<lparr>ext := e1\<rparr>)
                 | Some p \<Rightarrow> (res, leave rt self func args kwargs (time_time rt (ext w)) res e1 (acquire w)))))"
  by (auto simp: execute_with_monitoring_def leave_def exited_def acquire_def Let_def
      split: prod.splits outcome.splits)

text \<open>
  A call that is suspended inside the block holds one slot; \<open>leave\<close> gives one back,
  whatever the work came back with. A call whose work is in flight and then comes back
  ends in the world of a call whose work came back at once.
\<close>

lemma execute_holds_slot:
  assumes "execute_with_monitoring rt self f args kwargs w = (Blocks, w')" and "0 < permits w"
  shows "Suc (permits w') = permits w"
  using assms
  by (auto simp: execute_with_monitoring_def acquire_def release_def Let_def
      split: if_splits prod.splits outcome.splits)

lemma leave_gives_slot_back:
  "permits (leave rt self f args kwargs st res e1 w0) = Suc (permits w0)"
  by (simp add: leave_def release_def Let_def)

lemma leave_completes_call:
  assumes "0 < permits w"
    and "func_call f args kwargs (ext w) = (Blocks, e0)"
    and "func_name g = func_name f"
    and "func_call g args kwargs (ext w) = (res, e1)" and "res \<noteq> Blocks"
  shows "leave rt self f args kwargs (time_time rt (ext w)) res e1
           (snd (execute_with_monitoring rt self f args kwargs w))
         = snd (execute_with_monitoring rt self g args kwargs w)"
  using assms
  by (auto simp: execute_with_monitoring_def leave_def acquire_def release_def Let_def
      split: outcome.splits)

text \<open>
  Every event keeps the sum of the free slots and the calls inside the block: a call that
  runs on with its work in flight has taken a slot, a call that runs to its end has
  given back the slot it took, leaving by any path gives the slot back, queueing and
  giving up in the queue touch neither.
\<close>

lemma filter_running_enter:
  "t < length xs \<Longrightarrow> \<not> is_Running (xs ! t) \<Longrightarrow> is_Running x \<Longrightarrow>
   length (filter is_Running (xs[t := x])) = Suc (length (filter is_Running xs))"
  by (induction xs arbitrary: t) (auto split: nat.splits)

lemma filter_running_exit:
  "t < length xs \<Longrightarrow> is_Running (xs ! t) \<Longrightarrow> \<not> is_Running x \<Longrightarrow>
   Suc (length (filter is_Running (xs[t := x]))) = length (filter is_Running xs)"
  by (induction xs arbitrary: t) (auto split: nat.splits)

lemma filter_running_other:
  "t < length xs \<Longrightarrow> \<not> is_Running (xs ! t) \<Longrightarrow> \<not> is_Running x \<Longrightarrow>
   length (filter is_Running (xs[t := x])) = length (filter is_Running xs)"
  by (induction xs arbitrary: t) (auto split: nat.splits)

lemma begin_call_accounting:
  assumes t: "t < length (phases s)" and nr: "\<not> is_Running (phases s ! t)"
    and p: "0 < permits (shared s)"
  shows "permits (shared (begin_call rt self c t s)) + in_flight (begin_call rt self c t s)
         = permits (shared s) + in_flight s"
proof -
  obtain res w' where e: "execute_with_monitoring rt self (call_func c) (call_args c) (call_kwargs c) (shared s) = (res, w')"
    by (cases "execute_with_monitoring rt self (call_func c) (call_args c) (call_kwargs c) (shared s)")
  show ?thesis
  proof (cases "res = Blocks")
    case True
    with e p have "Suc (permits w') = permits (shared s)"
      using execute_holds_slot by metis
    moreover from True e have "begin_call rt self c t s =
        s\<lparr>shared := w', phases := (phases s)[t := Running (time_time rt (ext (shared s)))]\<rparr>"
      by (simp add: begin_call_def exited_def)
    ultimately show ?thesis
      using filter_running_enter[OF t nr, of "Running (time_time rt (ext (shared s)))"]
      by (simp add: in_flight_def)
  next
    case False
    then obtain q where q: "exited res = Some q"
      by (cases res) (simp_all add: exited_def)
    from execute_releases_slot[OF e False] have "permits w' = permits (shared s)" by simp
    moreover from q e have "begin_call rt self c t s = s\<lparr>shared := w', phases := (phases s)[t := Exited q]\<rparr>"
      by (simp add: begin_call_def)
    ultimately show ?thesis
      using filter_running_other[OF t nr, of "Exited q"]
      by (simp add: in_flight_def)
  qed
qed

lemma finish_accounting:
  assumes "finish rt self calls t res e1 s = Some s'"
  shows "permits (shared s') + in_flight s' = permits (shared s) + in_flight s"
proof -
  from assms obtain st where t: "t < length (phases s)" and ph: "phases s ! t = Running st"
    by (auto simp: finish_def phase_of_def split: if_splits option.splits phase.splits)
  from assms t ph obtain c where c: "call_of calls t = Some c"
    by (auto simp: finish_def phase_of_def split: option.splits)
  from assms t ph c obtain q where q: "exited res = Some q"
    by (auto simp: finish_def phase_of_def split: option.splits)
  from assms t ph c q
  have s': "s' = s\<lparr>shared := leave rt self (call_func c) (call_args c) (call_kwargs c) st res e1 (shared s),
                   phases := (phases s)[t := Exited q]\<rparr>"
    by (simp add: finish_def phase_of_def)
  from ph have "is_Running (phases s ! t)" by simp
  from filter_running_exit[OF t this, of "Exited q"] show ?thesis
    by (simp add: s' in_flight_def leave_gives_slot_back)
qed

lemma fire_accounting:
  assumes "fire rt self calls ev s = Some s'"
  shows "permits (shared s') + in_flight s' = permits (shared s) + in_flight s"
proof (cases ev)
  case (Call t)
  with assms have t: "t < length (phases s)" and ph: "phases s ! t = NotCalled"
    by (auto simp: phase_of_def split: if_splits)
  from ph have nr: "\<not> is_Running (phases s ! t)" by simp
  from assms Call obtain c where c: "call_of calls t = Some c"
    by (auto split: if_splits option.splits)
  from assms Call c t ph
  have s': "s' = (if permits (shared s) = 0 \<or> waiters s \<noteq> []
               then s\<lparr>phases := (phases s)[t := Waiting], waiters := waiters s @ [t]\<rparr>
               else begin_call rt self c t s)"
    by (auto simp: phase_of_def split: if_splits)
  show ?thesis
  proof (cases "permits (shared s) = 0 \<or> waiters s \<noteq> []")
    case True
    with s' filter_running_other[OF t nr, of Waiting] show ?thesis
      by (simp add: in_flight_def)
  next
    case False
    with s' begin_call_accounting[OF t nr, of rt self c] show ?thesis by simp
  qed
next
  case (Wake t)
  with assms have t: "t < length (phases s)" and ph: "phases s ! t = Waiting"
    and p: "0 < permits (shared s)"
    by (auto simp: phase_of_def split: if_splits)
  from ph have nr: "\<not> is_Running (phases s ! t)" by simp
  from assms Wake obtain c where c: "call_of calls t = Some c"
    by (auto split: if_splits option.splits)
  from assms Wake c have s': "s' = (begin_call rt self c t s)\<lparr>waiters := drop 1 (waiters s)\<rparr>"
    by (simp split: if_splits)
  with begin_call_accounting[OF t nr p, of rt self c] show ?thesis
    by (simp add: in_flight_def)
next
  case (CancelWait t)
  with assms have t: "t < length (phases s)" and ph: "phases s ! t = Waiting"
    and s': "s' = s\<lparr>phases := (phases s)[t := Exited Cancelled], waiters := removeAll t (waiters s)\<rparr>"
    by (auto simp: phase_of_def split: if_splits)
  from ph have nr: "\<not> is_Running (phases s ! t)" by simp
  from filter_running_other[OF t nr, of "Exited Cancelled"] show ?thesis
    by (simp add: s' in_flight_def)
next
  case (Finish t res e1)
  with assms finish_accounting show ?thesis by fastforce
next
  case (Cancel t)
  with assms finish_accounting show ?thesis by fastforce
qed

lemma run_accounting:
  "run rt self calls evs s = Some s' \<Longrightarrow>
   permits (shared s') + in_flight s' = permits (shared s) + in_flight s"
proof (induction evs arbitrary: s)
  case Nil
  then show ?case by simp
next
  case (Cons ev evs)
  then obtain s1 where f: "fire rt self calls ev s = Some s1" and r: "run rt self calls evs s1 = Some s'"
    by (auto split: option.splits)
  from Cons.IH[OF r] fire_accounting[OF f] show ?case by simp
qed

lemma in_flight_init: "in_flight (conc_init w n) = 0"
  by (simp add: in_flight_def conc_init_def)

text \<open>
  Claim C3: for every list of calls of \<^verbatim>\<open>execute_with_monitoring\<close> on a monitor
  constructed with \<open>max_workers\<close> slots and every schedule of their events, in the state
  the schedule reaches no more than \<open>max_workers\<close> calls have their work in flight, and
  every slot is either free or held by a call that is inside the block at that moment:
  a call that is over, by return, by exception or by cancellation, holds none. Every
  beginning of a schedule is a schedule, so this holds at every instant of a run.
\<close>

theorem C3_bounded_in_flight:
  assumes "ResourceMonitor_init max_workers e = Inr (self, w)"
    and "run rt self calls evs (conc_init w (length calls)) = Some s"
  shows "int (in_flight s) \<le> max_workers
       \<and> permits (shared s) + in_flight s = nat max_workers"
proof -
  from assms(1) have nn: "0 \<le> max_workers" and p: "permits w = nat max_workers"
    by (auto simp: ResourceMonitor_init_def Let_def split: if_splits prod.splits)
  have "shared (conc_init w (length calls)) = w" by (simp add: conc_init_def)
  with run_accounting[OF assms(2)] in_flight_init[of w "length calls"] p
  have eq: "permits (shared s) + in_flight s = nat max_workers" by simp
  then have "in_flight s \<le> nat max_workers" by simp
  with nn have "int (in_flight s) \<le> max_workers" by simp
  with eq show ?thesis by simp
qed

text \<open>
  One slot, four calls, the schedule \<open>four_schedule\<close>: the calls leave by an exception,
  by cancellation in the queue, by cancellation inside the block and by return, and the
  slot is free at the end.
\<close>

lemma four_monitor:
  "ResourceMonitor_init 1 (0::nat)
     = Inr (\<lparr>metrics_collector = \<lparr>metrics = 0\<rparr>\<rparr>, \<lparr>permits = 1, heap = [DictObj []], ext = 0\<rparr>)"
  by (simp add: ResourceMonitor_init_def MetricsCollector_init_def Let_def)

lemmas conc_eval =
  conc_init_def phase_of_def call_of_def begin_call_def finish_def exited_def leave_def
  execute_with_monitoring_def acquire_def release_def record_metric_def defaultdict_getitem_def
  list_append_def dict_at_def list_at_def Let_def
  four_calls_def four_schedule_def pending_work_def returning_work_def counter_runtime_def

theorem C3_bounded_in_flight_witness:
  "\<exists>s. ResourceMonitor_init 1 (0::nat)
         = Inr (\<lparr>metrics_collector = \<lparr>metrics = 0\<rparr>\<rparr>, \<lparr>permits = 1, heap = [DictObj []], ext = 0\<rparr>)
     \<and> run counter_runtime \<lparr>metrics_collector = \<lparr>metrics = 0\<rparr>\<rparr> four_calls four_schedule
          (conc_init \<lparr>permits = 1, heap = [DictObj []], ext = 0\<rparr> (length four_calls)) = Some s
     \<and> phases s = [Exited ExceptionRaised, Exited Cancelled, Exited Cancelled, Exited NormalReturn]
     \<and> int (in_flight s) \<le> 1 \<and> permits (shared s) + in_flight s = nat 1"
proof -
  obtain s where r: "run counter_runtime \<lparr>metrics_collector = \<lparr>metrics = 0\<rparr>\<rparr> four_calls four_schedule
          (conc_init \<lparr>permits = 1, heap = [DictObj []], ext = 0\<rparr> (length four_calls)) = Some s"
    and ph: "phases s = [Exited ExceptionRaised, Exited Cancelled, Exited Cancelled, Exited NormalReturn]"
    by (simp add: conc_eval)
  note b = C3_bounded_in_flight[OF four_monitor r]
  from b have b1: "int (in_flight s) \<le> 1" by (rule conjunct1)
  from b have b2: "permits (shared s) + in_flight s = nat 1" by (rule conjunct2)
  show ?thesis
    by (rule exI[of _ s]) (intro conjI four_monitor r ph b1 b2)
qed

text \<open>
  The same schedule up to the moment the third call has entered: the one slot is taken,
  one call has its work in flight, the fourth call waits.
\<close>

lemma four_schedule_peak:
  "\<exists>s. run counter_runtime \<lparr>metrics_collector = \<lparr>metrics = 0\<rparr>\<rparr> four_calls (take 7 four_schedule)
          (conc_init \<lparr>permits = 1, heap = [DictObj []], ext = 0\<rparr> (length four_calls)) = Some s
     \<and> permits (shared s) = 0 \<and> in_flight s = 1 \<and> waiters s = [3]
     \<and> phases s = [Exited ExceptionRaised, Exited Cancelled, Running 1, Waiting]"
  by (simp add: conc_eval in_flight_def)

section \<open>Properties: the pipeline\<close>

subsection \<open>Merging a dictionary\<close>



subsection \<open>What one block does to the run\<close>





text \<open>
  The object as \<^verbatim>\<open>EnhancedContentCreationService(...)\<close> constructs it cannot get past its
  first stage: the monitor forwards \<^verbatim>\<open>timeout\<close> and \<^verbatim>\<open>max_retries\<close> to
  \<^verbatim>\<open>_generate_script(self, context)\<close>, which takes neither, so the call raises
  \<^verbatim>\<open>TypeError\<close>; nothing in \<^verbatim>\<open>_execute_pipeline\<close> catches it. The same holds for each
  of the three stage methods, called as the pipeline calls them.
\<close>

lemma as_written_stage_raises:
  assumes "0 < permits w" and "name \<in> {''_generate_script'', ''_generate_voiceover'', ''_process_assets''}"
  shows "fst (run_stage rt self (bound_method name body) context timeout max_retries w)
       = Some (Raises (TypeError (name @ ''() got an unexpected keyword argument'')))"
  using assms
  by (auto simp: run_stage_def execute_with_monitoring_def acquire_def release_def
      bound_method_def stage_kwargs_def)

lemma as_written_pipeline_raises:
  assumes "0 < permits w"
  shows "fst (execute_pipeline rt (EnhancedContentCreationService_init base mon) request max_retries timeout w)
       = Raises (TypeError ''_generate_script() got an unexpected keyword argument'')"
  using assms
  by (simp add: execute_pipeline_def run_stage_def execute_with_monitoring_def acquire_def release_def
      EnhancedContentCreationService_init_def bound_method_def stage_kwargs_def)

text \<open>The monitor and the world of the concrete runs are those of \<^verbatim>\<open>ResourceMonitor(4)\<close>.\<close>

lemma demo_monitor_constructed: "ResourceMonitor_init 4 (0::nat) = Inr (demo_monitor, demo_world)"
  by (simp add: ResourceMonitor_init_def MetricsCollector_init_def demo_monitor_def demo_world_def)

lemmas pipeline_eval =
  execute_pipeline_def run_stage_def execute_with_monitoring_def acquire_def release_def
  stage_kwargs_def EnhancedContentCreationService_init_def bound_method_def method_body_def
  generate_script_def generate_voiceover_def process_assets_def except_Exception_def raise_or_def
  subscript_def getitem_def dict_get_def get_category_def failed_def dict_update_def
  demo_base_def demo_monitor_def demo_world_def demo_runtime_def demo_request_def
  record_metric_def defaultdict_getitem_def list_append_def dict_at_def list_at_def
  script_ok_def script_empty_def voiceover_ok_def



subsection \<open>The result of a run\<close>

text \<open>
  Claim C4 says that a run with a valid request returns either a success with the keys
  of all three stages or a failure whose error identifies the failing stage.
  \<^verbatim>\<open>_execute_pipeline\<close> is written to do so: it returns the context after the third
  stage, or the result of the stage that failed. On the constructed service, with
  generators that succeed and the monitor of \<^verbatim>\<open>ResourceMonitor(4)\<close>, a valid request
  gets neither: the run ends in the \<^verbatim>\<open>TypeError\<close> of the first monitored call, with all
  slots free again and the voiceover generator never called.
\<close>

theorem C4_valid_request_raises:
  "validate_content_request demo_request
   \<and> ResourceMonitor_init 4 (0::nat) = Inr (demo_monitor, demo_world)
   \<and> fst (execute_pipeline demo_runtime
        (EnhancedContentCreationService_init (demo_base script_ok voiceover_ok) demo_monitor)
        demo_request (VInt 3) (VInt 30) demo_world)
     = Raises (TypeError ''_generate_script() got an unexpected keyword argument'')
   \<and> permits (snd (execute_pipeline demo_runtime
        (EnhancedContentCreationService_init (demo_base script_ok voiceover_ok) demo_monitor)
        demo_request (VInt 3) (VInt 30) demo_world)) = 4
   \<and> ext (snd (execute_pipeline demo_runtime
        (EnhancedContentCreationService_init (demo_base script_ok voiceover_ok) demo_monitor)
        demo_request (VInt 3) (VInt 30) demo_world)) = 0"
  by (simp add: pipeline_eval validate_content_request_def has_key_def
      ResourceMonitor_init_def MetricsCollector_init_def)

subsection \<open>An empty script\<close>

text \<open>
  The body of \<^verbatim>\<open>_generate_voiceover\<close> has the guard of claim C10: on a context whose
  \<^verbatim>\<open>script\<close> is empty, absent or otherwise falsy it returns the failure and leaves the
  outside state, the voiceover generator's included, as it was.
\<close>

lemma generate_voiceover_no_script:
  assumes "\<not> truthy (dict_get context ''script'')"
  shows "generate_voiceover base context e
           = (Returns (ServiceResult False None (Some ''Script not found in context'') []), e)"
  using assms by (simp add: generate_voiceover_def except_Exception_def)


section \<open>Properties: batches\<close>

subsection \<open>Results and requests\<close>







lemmas batch_eval =
  create_content_batch_def process_batch_content_def process_single_content_def
  validate_content_def except_Exception_def raise_or_def bind_exn_def iterate_def index_def
  content_item_def truthy_item_def handed_on_def failed_def getitem_def has_key_def dict_get_def
  dict_get_default_def demo_orchestration_def demo_batch_def demo_script_def demo_voiceover_def

text \<open>
  A generator call that raises makes the whole batch one failure. The generators of
  \<^verbatim>\<open>layers/ai\<close> are ordinary functions, not coroutines: awaiting the result they return
  raises \<^verbatim>\<open>TypeError\<close>, which is this case.
\<close>

lemma batch_generator_raises:
  assumes "content_gen_batch_generate_scripts self batch_config e = (Raises x, e1)"
    and "is_Exception x"
  shows "create_content_batch self batch_config e
           = (Returns (ServiceResult False None (Some (exn_str x)) []), e1)"
  using assms by (simp add: create_content_batch_def except_Exception_def)




subsection \<open>Summary counts\<close>

text \<open>
  Claim C5 says that the monitored batch reports \<^verbatim>\<open>total\<close>, \<^verbatim>\<open>successful\<close> and
  \<^verbatim>\<open>failed\<close> with \<^verbatim>\<open>successful\<close> the number of items that completed. At three requests
  of which the second has no voiceover, \<^verbatim>\<open>_create_batch_with_monitoring\<close> raises before
  anything is counted, because \<^verbatim>\<open>_batch_monitor()\<close> is a coroutine and not a context
  manager; and the block it would run, given a monitor, counts the keys of the result's
  dictionary: \<^verbatim>\<open>successful\<close> is 1 and \<^verbatim>\<open>failed\<close> is 2, where two items completed.
\<close>

theorem C5_summary_counts_scenario:
  "fst (create_batch_with_monitoring demo_runtime
          (demo_orchestration [demo_voiceover, None, demo_voiceover]) demo_batch 0)
     = Raises (TypeError ''coroutine object does not support the asynchronous context manager protocol'')
   \<and> fst (monitored_batch demo_runtime (demo_orchestration [demo_voiceover, None, demo_voiceover])
            \<lparr>start_time = None, bm_metrics = []\<rparr> demo_batch 0)
     = Returns (ServiceResult True
         (Some (BDict [(''results'',
                  EResults [ServiceResult True (Some [(''content'', VObj 0)]) None [],
                            ServiceResult True (Some [(''content'', VObj 1)]) None []]),
                (''metrics'',
                  EMetrics [(''total'', VInt 3), (''successful'', VInt 1), (''failed'', VInt 2),
                            (''duration'', VFloat 0)])])) None [])"
  by (simp add: create_batch_with_monitoring_def batch_monitor_def async_with_def monitored_batch_def
      batch_summary_def py_len_def set_metrics_def dict_update_def demo_runtime_def batch_eval)


end
